theory Spec2Isabelle
  imports Main
begin

section \<open>Data model\<close>

text \<open>
  The authentication client of protonvpn-wg-confgen: package \<open>auth\<close>, whose functions are
  in src/internal/config/flags.go (from the comment \<open>Package auth\<close> on),
  src/internal/auth/session.go and src/internal/auth/errors.go, with the constants of package
  \<open>constants\<close> (src/unnamed/part_001). Strings are Go strings, that is byte sequences.
  Instants are integers (nanoseconds on the wall clock, with which the monotonic reading that
  Go keeps beside it is taken to agree), durations are Go's
  \<open>time.Duration\<close>: signed 64-bit counts of nanoseconds, kept as \<open>int\<close> with the
  wrap-around of the one multiplication the code performs at run time written out
  (\<open>wrap64\<close>).
\<close>

text \<open>
  Modelled from the spec: \<open>api.Session\<close>, declared in internal/api/types.go, of which only
  the uses are at hand. The fields are the ones the functions below read: the payload code, the
  tokens, the session identifier, the scopes, the server proof and the server-declared lifetime
  in seconds.
\<close>

record Session =
  Code :: int
  AccessToken :: string
  RefreshToken :: string
  UID :: string
  Scopes :: "string list"
  ServerProof :: string
  ExpiresIn :: int

text \<open>Modelled from the spec: \<open>api.AuthInfoResponse\<close> with its nested 2FA flags.\<close>

record TwoFAInfo =
  Enabled :: int
  TOTP :: int

record AuthInfoResponse =
  InfoCode :: int
  Version :: int
  Salt :: string
  Modulus :: string
  ServerEphemeral :: string
  SRPSession :: string
  TwoFA :: TwoFAInfo

text \<open>The anonymous response struct of \<open>submit2FA\<close>.\<close>

record TwoFAResponse =
  TwoFACode :: int
  TwoFAScopes :: "string list"
  TwoFAError :: string

text \<open>\<open>srp.Proofs\<close> of the external SRP library, consumed as a black box.\<close>

record Proofs =
  ClientEphemeral :: string
  ClientProof :: string
  ExpectedServerProof :: string

text \<open>The request map built by \<open>buildAuthRequest\<close>; \<open>TwoFactorCode\<close> is the optional key.\<close>

record AuthRequest =
  ReqUsername :: string
  ReqClientEphemeral :: string
  ReqClientProof :: string
  ReqSRPSession :: string
  PersistentCookies :: int
  TwoFactorCode :: "string option"

text \<open>\<open>config.Config\<close>, the fields the authentication client reads.\<close>

record Config =
  Username :: string
  Password :: string
  ClearSession :: bool
  NoSession :: bool
  ForceRefresh :: bool
  SessionDuration :: string

text \<open>\<open>SavedSession\<close> (session.go), fields named by their JSON tags; the session is a pointer
  and may be nil.\<close>

record SavedSession =
  session :: "Session option"
  username :: string
  saved_at :: int
  expires_at :: int

text \<open>The bytes of the session file: either bytes on which \<open>json.Unmarshal\<close> fails, or the
  encoding of a \<open>SavedSession\<close>.\<close>

datatype file_content = Malformed string | Stored SavedSession

datatype endpoint = AuthInfoPath | AuthPath | TwoFAPath | RefreshPath | LogicalsPath

datatype error =
    ErrReadUsername
  | ErrUsernameEmpty
  | ErrReadPassword
  | ErrRead2FA
  | Err2FAEmpty
  | Err2FANotNumeric
  | ErrRequest
  | ErrTransport
  | ErrHTTPStatus endpoint int
  | ErrParse
  | ErrAuthInfoCode int
  | ErrEmptyModulus
  | ErrEmptyServerEphemeral
  | ErrLegacyTwoPassword
  | APIError int
  | Err2FAFailed int string
  | ErrSRPCreate
  | ErrSRPGenerate
  | ErrServerProof
  | ErrRefreshFailed int
  | ErrReadSessionFile
  | ErrUnmarshalSession
  | ErrMarshalSession
  | ErrWriteSessionFile
  | ErrDeleteSessionFile
  | Wrapped string error

text \<open>An HTTP exchange: the transport fails, or a status code comes back with a body that
  \<open>json.Unmarshal\<close> either rejects (\<open>None\<close>) or decodes.\<close>

datatype 'a reply = NetError | Reply int "'a option"

datatype srp_result = SRPCreateFails | SRPGenerateFails | SRPOk Proofs

text \<open>What a run does that can be seen from outside. A printed message is kept by its
  constant text; the values formatted into it are left out.\<close>

datatype event =
    Print string
  | ReadStdin
  | Net endpoint
  | FileRead
  | FileWrite
  | FileRemove

text \<open>
  What a run cannot decide itself: the clock, the failures of the file system and of the encoding
  of the session for the file, whether a request can be built at all (\<open>json.Marshal\<close> and
  \<open>http.NewRequest\<close>, which rejects a malformed API URL), the remote party, the SRP engine,
  base64, and two parts of the repository of which only the uses are at hand
  (\<open>timeutil.ParseSessionDuration\<close>, returning a duration and whether it failed, and the
  constant \<open>constants.SessionRefreshDays\<close>).
\<close>

record env =
  clock :: "nat \<Rightarrow> int"
  read_fails :: bool
  write_fails :: bool
  remove_fails :: bool
  encode_fails :: bool
  request_fails :: bool
  info_reply :: "string \<Rightarrow> AuthInfoResponse reply"
  auth_reply :: "AuthRequest \<Rightarrow> Session reply"
  twofa_reply :: "Session \<Rightarrow> string \<Rightarrow> TwoFAResponse reply"
  refresh_reply :: "Session \<Rightarrow> Session reply"
  verify_reply :: "Session \<Rightarrow> int option"
  srp :: "int \<Rightarrow> string \<Rightarrow> string \<Rightarrow> string \<Rightarrow> string \<Rightarrow> string \<Rightarrow> srp_result"
  EncodeToString :: "string \<Rightarrow> string"
  ParseSessionDuration :: "string \<Rightarrow> int \<times> bool"
  SessionRefreshDays :: int

text \<open>
  What a run changes: the session file, the terminal input still to be read (each element is
  the result of one read, \<open>None\<close> a failed one; an exhausted input is end of file), the number
  of clock readings taken so far, and the log of what the run did, oldest first.
\<close>

record world =
  session_file :: "file_content option"
  stdin :: "string option list"
  ticks :: nat
  trace :: "event list"

definition emit :: "event \<Rightarrow> world \<Rightarrow> world" where
  "emit ev w = w\<lparr>trace := trace w @ [ev]\<rparr>"

definition Now :: "env \<Rightarrow> world \<Rightarrow> int \<times> world" where
  "Now e w = (clock e (ticks w), w\<lparr>ticks := Suc (ticks w)\<rparr>)"

definition net_calls :: "world \<Rightarrow> endpoint list" where
  "net_calls w = concat (map (\<lambda>ev. case ev of Net ep \<Rightarrow> [ep] | _ \<Rightarrow> []) (trace w))"

definition file_ops :: "world \<Rightarrow> event list" where
  "file_ops w = filter (\<lambda>ev. ev = FileRead \<or> ev = FileWrite \<or> ev = FileRemove) (trace w)"

section \<open>Constants (constants/api.go, auth/errors.go)\<close>

definition APICodeSuccess :: int where "APICodeSuccess = 1000"
definition APICodeMultiStatus :: int where "APICodeMultiStatus = 1001"
definition CodeSuccess :: int where "CodeSuccess = APICodeSuccess"
definition CodeMailboxPasswordError :: int where "CodeMailboxPasswordError = 10013"
definition EnabledTrue :: int where "EnabledTrue = 1"
definition StatusOK :: int where "StatusOK = 200"
definition StatusUnauthorized :: int where "StatusUnauthorized = 401"

definition IsSuccessCode :: "int \<Rightarrow> bool" where
  "IsSuccessCode code = (code = APICodeSuccess \<or> code = APICodeMultiStatus)"

section \<open>Durations\<close>

definition Second :: int where "Second = 1000000000"
definition Hour :: int where "Hour = 3600 * Second"

text \<open>A product of durations computed at run time is taken in 64 bits, two's complement.\<close>

definition wrap64 :: "int \<Rightarrow> int" where
  "wrap64 x = (x + 2 ^ 63) mod 2 ^ 64 - 2 ^ 63"

text \<open>\<open>Time.Sub\<close> saturates at the largest and smallest duration.\<close>

definition Sub :: "int \<Rightarrow> int \<Rightarrow> int" where
  "Sub t u = max (- (2 ^ 63)) (min (2 ^ 63 - 1) (t - u))"

text \<open>\<open>time.Duration(session.ExpiresIn) * time.Second\<close>, the server-declared lifetime as the
  duration \<open>Save\<close> adds to the clock.\<close>

definition serverDeclaredLifetime :: "Session \<Rightarrow> int" where
  "serverDeclaredLifetime s = wrap64 (ExpiresIn s * Second)"

text \<open>\<open>time.Duration(constants.SessionRefreshDays)*24*time.Hour\<close>, an expression of constants,
  which the compiler evaluates exactly.\<close>

definition refreshThreshold :: "env \<Rightarrow> int" where
  "refreshThreshold e = SessionRefreshDays e * 24 * Hour"

section \<open>Session store (session.go)\<close>

text \<open>\<open>json.MarshalIndent\<close> and \<open>os.WriteFile\<close>, the end of \<open>Save\<close>. A failed write is
  taken to leave the file as it was.\<close>

definition WriteFile :: "env \<Rightarrow> SavedSession \<Rightarrow> world \<Rightarrow> error option \<times> world" where
  "WriteFile e ss w =
     (if encode_fails e then (Some ErrMarshalSession, w)
      else (let w1 = emit FileWrite w in
            if write_fails e then (Some ErrWriteSessionFile, w1)
            else (None, w1\<lparr>session_file := Some (Stored ss)\<rparr>)))"

definition Save :: "env \<Rightarrow> Session \<Rightarrow> string \<Rightarrow> int \<Rightarrow> world \<Rightarrow> error option \<times> world" where
  "Save e s u duration w =
     (let (savedAt, w1) = Now e w;
          (t2, w2) = Now e w1;
          apiExpiration = t2 + serverDeclaredLifetime s
      in if duration = 0
         then WriteFile e \<lparr>session = Some s, username = u, saved_at = savedAt,
                          expires_at = apiExpiration\<rparr> w2
         else (let (t3, w3) = Now e w2;
                   userExpiration = t3 + duration
               in WriteFile e \<lparr>session = Some s, username = u, saved_at = savedAt,
                     expires_at = (if userExpiration > apiExpiration then apiExpiration
                                   else userExpiration)\<rparr> w3))"

definition Delete :: "env \<Rightarrow> world \<Rightarrow> error option \<times> world" where
  "Delete e w =
     (let w1 = emit FileRemove w in
      case session_file w1 of
        None \<Rightarrow> (None, w1)
      | Some c \<Rightarrow> if remove_fails e then (Some ErrDeleteSessionFile, w1)
                  else (None, w1\<lparr>session_file := None\<rparr>))"

text \<open>\<open>Load\<close> returns Go's triple: the session pointer, the time until expiry, the error.\<close>

definition Load :: "env \<Rightarrow> string \<Rightarrow> world \<Rightarrow> (Session option \<times> int \<times> error option) \<times> world" where
  "Load e u w =
     (let w1 = emit FileRead w in
      case session_file w1 of
        None \<Rightarrow> ((None, 0, None), w1)
      | Some c \<Rightarrow>
          if read_fails e then ((None, 0, Some ErrReadSessionFile), w1)
          else (case c of
                  Malformed bytes \<Rightarrow> ((None, 0, Some ErrUnmarshalSession), w1)
                | Stored savedSession \<Rightarrow>
                    if username savedSession \<noteq> u then ((None, 0, None), w1)
                    else (let (now, w2) = Now e w1 in
                          if now > expires_at savedSession
                          then ((None, 0, None), snd (Delete e w2))
                          else ((session savedSession, Sub (expires_at savedSession) now, None),
                                w2))))"

section \<open>Terminal input\<close>

text \<open>\<open>reader.ReadString('\n')\<close> and \<open>term.ReadPassword\<close>: one read from the terminal each.\<close>

definition ReadString :: "world \<Rightarrow> string option \<times> world" where
  "ReadString w =
     (let w1 = emit ReadStdin w in
      case stdin w1 of
        [] \<Rightarrow> (None, w1)
      | r # rest \<Rightarrow> (r, w1\<lparr>stdin := rest\<rparr>))"

definition ReadPassword :: "world \<Rightarrow> string option \<times> world" where
  "ReadPassword w =
     (let w1 = emit ReadStdin w in
      case stdin w1 of
        [] \<Rightarrow> (None, w1)
      | r # rest \<Rightarrow> (r, w1\<lparr>stdin := rest\<rparr>))"

text \<open>
  \<open>strings.TrimSpace\<close> removes the leading and trailing runes that \<open>unicode.IsSpace\<close> accepts.
  On the bytes of a string these are the six ASCII ones and the UTF-8 encodings of U+0085,
  U+00A0, U+1680, U+2000 to U+200A, U+2028, U+2029, U+202F, U+205F and U+3000.
\<close>

definition space1 :: "char \<Rightarrow> bool" where
  "space1 c = (c = CHR 0x09 \<or> c = CHR 0x0A \<or> c = CHR 0x0B \<or> c = CHR 0x0C \<or> c = CHR 0x0D
               \<or> c = CHR 0x20)"

definition space2 :: "char \<Rightarrow> char \<Rightarrow> bool" where
  "space2 c1 c2 = (c1 = CHR 0xC2 \<and> (c2 = CHR 0x85 \<or> c2 = CHR 0xA0))"

definition space3 :: "char \<Rightarrow> char \<Rightarrow> char \<Rightarrow> bool" where
  "space3 c1 c2 c3 =
     ((c1 = CHR 0xE1 \<and> c2 = CHR 0x9A \<and> c3 = CHR 0x80)
      \<or> (c1 = CHR 0xE2 \<and> c2 = CHR 0x80
          \<and> ((0x80 \<le> (of_char c3 :: nat) \<and> (of_char c3 :: nat) \<le> 0x8A)
              \<or> c3 = CHR 0xA8 \<or> c3 = CHR 0xA9 \<or> c3 = CHR 0xAF))
      \<or> (c1 = CHR 0xE2 \<and> c2 = CHR 0x81 \<and> c3 = CHR 0x9F)
      \<or> (c1 = CHR 0xE3 \<and> c2 = CHR 0x80 \<and> c3 = CHR 0x80))"

fun TrimLeft :: "string \<Rightarrow> string" where
  "TrimLeft (c1 # c2 # c3 # cs) =
     (if space1 c1 then TrimLeft (c2 # c3 # cs)
      else if space2 c1 c2 then TrimLeft (c3 # cs)
      else if space3 c1 c2 c3 then TrimLeft cs
      else c1 # c2 # c3 # cs)"
| "TrimLeft [c1, c2] =
     (if space1 c1 then TrimLeft [c2] else if space2 c1 c2 then [] else [c1, c2])"
| "TrimLeft [c1] = (if space1 c1 then [] else [c1])"
| "TrimLeft [] = []"

text \<open>The same from the right, on the reversed bytes.\<close>

fun TrimLeftRev :: "string \<Rightarrow> string" where
  "TrimLeftRev (c1 # c2 # c3 # cs) =
     (if space1 c1 then TrimLeftRev (c2 # c3 # cs)
      else if space2 c2 c1 then TrimLeftRev (c3 # cs)
      else if space3 c3 c2 c1 then TrimLeftRev cs
      else c1 # c2 # c3 # cs)"
| "TrimLeftRev [c1, c2] =
     (if space1 c1 then TrimLeftRev [c2] else if space2 c2 c1 then [] else [c1, c2])"
| "TrimLeftRev [c1] = (if space1 c1 then [] else [c1])"
| "TrimLeftRev [] = []"

definition TrimSpace :: "string \<Rightarrow> string" where
  "TrimSpace s = rev (TrimLeftRev (rev (TrimLeft s)))"

section \<open>Remote calls (auth.go, session.go)\<close>

text \<open>Each call builds a request, which may fail before anything is sent, and is then one
  exchange with the remote party. A failure of the transport or of reading the body is
  \<open>ErrTransport\<close>.\<close>

definition RefreshSession :: "env \<Rightarrow> Session \<Rightarrow> world \<Rightarrow> (error + Session) \<times> world" where
  "RefreshSession e oldSession w =
     (if request_fails e then (Inl ErrRequest, w)
      else (let w1 = emit (Net RefreshPath) w in
            case refresh_reply e oldSession of
              NetError \<Rightarrow> (Inl ErrTransport, w1)
            | Reply status body \<Rightarrow>
                if status = StatusOK
                then (case body of
                        None \<Rightarrow> (Inl ErrParse, w1)
                      | Some s \<Rightarrow> if IsSuccessCode (Code s) then (Inr s, w1)
                                  else (Inl (ErrRefreshFailed status), w1))
                else (Inl (ErrRefreshFailed status), w1)))"

definition VerifySession :: "env \<Rightarrow> Session \<Rightarrow> world \<Rightarrow> bool \<times> world" where
  "VerifySession e s w =
     (if request_fails e then (False, w)
      else (let w1 = emit (Net LogicalsPath) w in
            case verify_reply e s of
              None \<Rightarrow> (False, w1)
            | Some status \<Rightarrow>
                if status = StatusUnauthorized then (False, w1)
                else (200 \<le> status \<and> status < 300, w1)))"

definition getAuthInfo :: "env \<Rightarrow> Config \<Rightarrow> world \<Rightarrow> (error + AuthInfoResponse) \<times> world" where
  "getAuthInfo e cfg w =
     (if request_fails e then (Inl ErrRequest, w)
      else (let w1 = emit (Net AuthInfoPath) w in
            case info_reply e (Username cfg) of
              NetError \<Rightarrow> (Inl ErrTransport, w1)
            | Reply status body \<Rightarrow>
                if status \<noteq> StatusOK then (Inl (ErrHTTPStatus AuthInfoPath status), w1)
                else (case body of
                        None \<Rightarrow> (Inl (Wrapped ''failed to parse auth info'' ErrParse), w1)
                      | Some authInfo \<Rightarrow>
                          if InfoCode authInfo \<noteq> CodeSuccess
                          then (Inl (ErrAuthInfoCode (InfoCode authInfo)), w1)
                          else if Modulus authInfo = [] then (Inl ErrEmptyModulus, w1)
                          else if ServerEphemeral authInfo = [] then (Inl ErrEmptyServerEphemeral, w1)
                          else (Inr authInfo, w1))))"

definition sendAuthRequest :: "env \<Rightarrow> AuthRequest \<Rightarrow> world \<Rightarrow> (error + Session) \<times> world" where
  "sendAuthRequest e authReq w =
     (if request_fails e then (Inl ErrRequest, w)
      else (let w1 = emit (Net AuthPath) w in
            case auth_reply e authReq of
              NetError \<Rightarrow> (Inl ErrTransport, w1)
            | Reply status body \<Rightarrow>
                if status \<noteq> StatusOK then (Inl (ErrHTTPStatus AuthPath status), w1)
                else (case body of
                        None \<Rightarrow> (Inl ErrParse, w1)
                      | Some s \<Rightarrow>
                          if Code s = CodeMailboxPasswordError then (Inl ErrLegacyTwoPassword, w1)
                          else if Code s \<noteq> CodeSuccess then (Inl (APIError (Code s)), w1)
                          else (Inr s, w1))))"

definition submit2FA :: "env \<Rightarrow> Session \<Rightarrow> string \<Rightarrow> world \<Rightarrow> (error + string list) \<times> world" where
  "submit2FA e s code w =
     (if request_fails e then (Inl ErrRequest, w)
      else (let w1 = emit (Net TwoFAPath) w in
            case twofa_reply e s code of
              NetError \<Rightarrow> (Inl ErrTransport, w1)
            | Reply status body \<Rightarrow>
                if status \<noteq> StatusOK then (Inl (ErrHTTPStatus TwoFAPath status), w1)
                else (case body of
                        None \<Rightarrow> (Inl (Wrapped ''failed to parse 2FA response'' ErrParse), w1)
                      | Some twoFAResp \<Rightarrow>
                          if TwoFACode twoFAResp \<noteq> CodeSuccess
                          then (if TwoFAError twoFAResp \<noteq> []
                                then (Inl (Err2FAFailed (TwoFACode twoFAResp) (TwoFAError twoFAResp)), w1)
                                else (Inl (APIError (TwoFACode twoFAResp)), w1))
                          else (Inr (TwoFAScopes twoFAResp), w1))))"

section \<open>Prompts and local checks (auth.go)\<close>

definition ensureUsername :: "Config \<Rightarrow> world \<Rightarrow> error option \<times> Config \<times> world" where
  "ensureUsername cfg w =
     (if Username cfg = []
      then (let w1 = emit (Print ''Username (without @protonmail.com): '') w;
                (r, w2) = ReadString w1
            in case r of
                 None \<Rightarrow> (Some ErrReadUsername, cfg, w2)
               | Some line \<Rightarrow>
                   (let cfg1 = cfg\<lparr>Username := TrimSpace line\<rparr>
                    in if Username cfg1 = [] then (Some ErrUsernameEmpty, cfg1, w2)
                       else (None, cfg1, w2)))
      else (None, cfg, w))"

definition ensurePassword :: "Config \<Rightarrow> world \<Rightarrow> error option \<times> Config \<times> world" where
  "ensurePassword cfg w =
     (if Password cfg = []
      then (let w1 = emit (Print ''Password: '') w;
                (r, w2) = ReadPassword w1;
                w3 = emit (Print []) w2
            in case r of
                 None \<Rightarrow> (Some ErrReadPassword, cfg, w3)
               | Some passwordBytes \<Rightarrow> (None, cfg\<lparr>Password := passwordBytes\<rparr>, w3))
      else (None, cfg, w))"

text \<open>
  The loop \<open>for _, c := range code\<close> of \<open>get2FACode\<close>, which stops at the first rune outside
  \<open>'0'..'9'\<close>. Every byte of a rune beyond ASCII is at least 0x80 and an invalid byte ranges as
  U+FFFD, so the test on runes and the test on bytes accept the same strings.
\<close>

fun numeric :: "string \<Rightarrow> bool" where
  "numeric [] = True"
| "numeric (c # cs) =
     (if (of_char c :: nat) < of_char CHR ''0'' \<or> (of_char c :: nat) > of_char CHR ''9''
      then False else numeric cs)"

definition get2FACode :: "world \<Rightarrow> (error + string) \<times> world" where
  "get2FACode w =
     (let w1 = emit (Print ''2FA Code: '') w;
          (r, w2) = ReadString w1
      in case r of
           None \<Rightarrow> (Inl ErrRead2FA, w2)
         | Some line \<Rightarrow>
             (let code = TrimSpace line
              in if code = [] then (Inl Err2FAEmpty, w2)
                 else if \<not> numeric code then (Inl Err2FANotNumeric, w2)
                 else (Inr code, w2)))"

definition generateSRPProofs :: "env \<Rightarrow> Config \<Rightarrow> AuthInfoResponse \<Rightarrow> error + Proofs" where
  "generateSRPProofs e cfg authInfo =
     (case srp e (Version authInfo) (Username cfg) (Password cfg) (Salt authInfo)
             (Modulus authInfo) (ServerEphemeral authInfo) of
        SRPCreateFails \<Rightarrow> Inl ErrSRPCreate
      | SRPGenerateFails \<Rightarrow> Inl ErrSRPGenerate
      | SRPOk proofs \<Rightarrow> Inr proofs)"

definition buildAuthRequest :: "env \<Rightarrow> Config \<Rightarrow> AuthInfoResponse \<Rightarrow> Proofs \<Rightarrow> AuthRequest" where
  "buildAuthRequest e cfg authInfo proofs =
     \<lparr>ReqUsername = Username cfg,
      ReqClientEphemeral = EncodeToString e (ClientEphemeral proofs),
      ReqClientProof = EncodeToString e (ClientProof proofs),
      ReqSRPSession = SRPSession authInfo,
      PersistentCookies = 0,
      TwoFactorCode = None\<rparr>"

definition checkSessionScopes :: "Session \<Rightarrow> bool \<times> bool" where
  "checkSessionScopes s =
     foldl (\<lambda>(hasVPN, hasTwoFactor) scope.
              if scope = ''vpn'' then (True, hasTwoFactor)
              else if scope = ''twofactor'' then (hasVPN, True)
              else (hasVPN, hasTwoFactor))
           (False, False) (Scopes s)"

section \<open>The session lifecycle (auth.go)\<close>

definition handleSessionRefresh ::
  "env \<Rightarrow> Config \<Rightarrow> Session \<Rightarrow> string \<Rightarrow> world \<Rightarrow> (error + Session) \<times> world" where
  "handleSessionRefresh e cfg savedSession reason w =
     (case RefreshSession e savedSession (emit (Print reason) w) of
        (Inl err, w1) \<Rightarrow>
          (let w2 = emit (Print ''Token refresh failed'') w1;
               w3 = emit (Print ''Re-authenticating with password...'') w2;
               w4 = emit (Print ''(Your trusted device status for MFA will be preserved)'') w3
           in (Inl err, snd (Delete e w4)))
      | (Inr refreshedSession, w1) \<Rightarrow>
          (let w2 = emit (Print ''Session refreshed successfully!'') w1;
               w3 = (if RefreshToken savedSession \<noteq> RefreshToken refreshedSession
                     then emit (Print ''Refresh token was rotated'') w2 else w2)
           in if \<not> NoSession cfg
              then (let sessionDuration = fst (ParseSessionDuration e (SessionDuration cfg));
                        (err, w4) = Save e refreshedSession (Username cfg) sessionDuration w3
                    in (Inr refreshedSession,
                        (case err of
                           Some x \<Rightarrow> emit (Print ''Warning: Failed to save refreshed session'') w4
                         | None \<Rightarrow> w4)))
              else (Inr refreshedSession, w3)))"

text \<open>\<open>tryExistingSession\<close> returns Go's pair of a session pointer and an error.\<close>

definition tryExistingSession ::
  "env \<Rightarrow> Config \<Rightarrow> world \<Rightarrow> (Session option \<times> error option) \<times> world" where
  "tryExistingSession e cfg w =
     (case Load e (Username cfg) w of
        ((savedSession, timeUntilExpiry, Some err), w1) \<Rightarrow>
          ((None, Some err), emit (Print ''Warning: Failed to load saved session'') w1)
      | ((None, timeUntilExpiry, None), w1) \<Rightarrow> ((None, None), w1)
      | ((Some savedSession, timeUntilExpiry, None), w1) \<Rightarrow>
          if ForceRefresh cfg
          then (case handleSessionRefresh e cfg savedSession ''Forcing session refresh'' w1 of
                  (Inl err, w2) \<Rightarrow> ((None, Some err), w2)
                | (Inr s, w2) \<Rightarrow> ((Some s, None), w2))
          else if timeUntilExpiry < refreshThreshold e \<and> timeUntilExpiry > 0
          then (case handleSessionRefresh e cfg savedSession
                       ''Session expires soon, attempting refresh...'' w1 of
                  (Inl err, w2) \<Rightarrow> ((None, Some err), w2)
                | (Inr s, w2) \<Rightarrow> ((Some s, None), w2))
          else (case VerifySession e savedSession w1 of
                  (True, w2) \<Rightarrow> ((Some savedSession, None), emit (Print ''Using saved session'') w2)
                | (False, w2) \<Rightarrow>
                    ((None, None),
                     snd (Delete e (emit (Print ''Saved session invalid, re-authenticating...'') w2)))))"

definition handleExistingSession :: "env \<Rightarrow> Config \<Rightarrow> world \<Rightarrow> Session option \<times> world" where
  "handleExistingSession e cfg w =
     (if ClearSession cfg
      then (None, snd (Delete e (emit (Print ''Clearing saved session...'') w)))
      else if NoSession cfg then (None, w)
      else (case tryExistingSession e cfg w of
              ((Some s, None), w1) \<Rightarrow> (Some s, w1)
            | ((Some s, Some err), w1) \<Rightarrow> (None, w1)
            | ((None, err), w1) \<Rightarrow> (None, w1)))"

definition performFreshAuth :: "env \<Rightarrow> Config \<Rightarrow> world \<Rightarrow> (error + Session) \<times> world" where
  "performFreshAuth e cfg w =
     (case getAuthInfo e cfg w of
        (Inl err, w1) \<Rightarrow> (Inl (Wrapped ''failed to get auth info'' err), w1)
      | (Inr authInfo, w1) \<Rightarrow>
          (case generateSRPProofs e cfg authInfo of
             Inl err \<Rightarrow> (Inl err, w1)
           | Inr clientProofs \<Rightarrow>
               (case (if Enabled (TwoFA authInfo) = EnabledTrue \<and> TOTP (TwoFA authInfo) = EnabledTrue
                      then (case get2FACode w1 of
                              (Inl err, w2) \<Rightarrow> (Inl err, w2)
                            | (Inr code, w2) \<Rightarrow>
                                (Inr ((buildAuthRequest e cfg authInfo clientProofs)
                                        \<lparr>TwoFactorCode := Some code\<rparr>), w2))
                      else (Inr (buildAuthRequest e cfg authInfo clientProofs), w1)) of
                  (Inl err, w2) \<Rightarrow> (Inl err, w2)
                | (Inr authReq, w2) \<Rightarrow>
                    (case sendAuthRequest e authReq w2 of
                       (Inl err, w3) \<Rightarrow> (Inl err, w3)
                     | (Inr s, w3) \<Rightarrow>
                         if ServerProof s \<noteq> EncodeToString e (ExpectedServerProof clientProofs)
                         then (Inl ErrServerProof, w3)
                         else (Inr s, w3)))))"

text \<open>\<open>upgradeSessionIfNeeded\<close> returns the error and the session it was given, with the scopes
  it may have replaced in place.\<close>

definition upgradeSessionIfNeeded ::
  "env \<Rightarrow> Session \<Rightarrow> world \<Rightarrow> error option \<times> Session \<times> world" where
  "upgradeSessionIfNeeded e s w =
     (let (hasVPNScope, hasTwoFactorScope) = checkSessionScopes s
      in if hasVPNScope \<or> \<not> hasTwoFactorScope then (None, s, w)
         else (case get2FACode
                      (emit (Print ''Session lacks VPN scope - 2FA verification required to upgrade session...'') w) of
                 (Inl err, w1) \<Rightarrow> (Some (Wrapped ''failed to get 2FA code'' err), s, w1)
               | (Inr code, w1) \<Rightarrow>
                   (case submit2FA e s code w1 of
                      (Inl err, w2) \<Rightarrow> (Some (Wrapped ''2FA verification failed'' err), s, w2)
                    | (Inr updatedScopes, w2) \<Rightarrow>
                        (None, s\<lparr>Scopes := updatedScopes\<rparr>,
                         emit (Print ''2FA verified - session upgraded with VPN scope'') w2))))"

definition saveSessionIfEnabled :: "env \<Rightarrow> Config \<Rightarrow> Session \<Rightarrow> world \<Rightarrow> world" where
  "saveSessionIfEnabled e cfg s w =
     (if NoSession cfg then w
      else (let (d, failed) = ParseSessionDuration e (SessionDuration cfg);
                sessionDuration = (if failed then 0 else d);
                w1 = (if failed
                      then emit (Print ''Warning: Invalid session duration, using default'') w
                      else w);
                (err, w2) = Save e s (Username cfg) sessionDuration w1
            in case err of
                 Some x \<Rightarrow> emit (Print ''Warning: Failed to save session'') w2
               | None \<Rightarrow> w2))"

text \<open>The statements of \<open>Authenticate\<close> after the early return of an existing session: the
  password, the fresh authentication, the scope upgrade and the save.\<close>

definition Authenticate_fresh :: "env \<Rightarrow> Config \<Rightarrow> world \<Rightarrow> (error + Session) \<times> world" where
  "Authenticate_fresh e cfg w =
     (case ensurePassword cfg w of
        (Some err, cfg1, w1) \<Rightarrow> (Inl err, w1)
      | (None, cfg1, w1) \<Rightarrow>
          (case performFreshAuth e cfg1 w1 of
             (Inl err, w2) \<Rightarrow> (Inl err, w2)
           | (Inr s, w2) \<Rightarrow>
               (case upgradeSessionIfNeeded e s w2 of
                  (Some err, s1, w3) \<Rightarrow> (Inl err, w3)
                | (None, s1, w3) \<Rightarrow> (Inr s1, saveSessionIfEnabled e cfg1 s1 w3))))"

definition Authenticate :: "env \<Rightarrow> Config \<Rightarrow> world \<Rightarrow> (error + Session) \<times> world" where
  "Authenticate e cfg w =
     (case ensureUsername cfg w of
        (Some err, cfg1, w1) \<Rightarrow> (Inl err, w1)
      | (None, cfg1, w1) \<Rightarrow>
          (case handleExistingSession e cfg1 w1 of
             (Some s, w2) \<Rightarrow> (Inr s, w2)
           | (None, w2) \<Rightarrow> Authenticate_fresh e cfg1 w2))"

section \<open>Example runs\<close>

definition example_session :: Session where
  "example_session =
     \<lparr>Code = 1000, AccessToken = ''access'', RefreshToken = ''refresh'', UID = ''uid'',
      Scopes = [''vpn''], ServerProof = ''=server'', ExpiresIn = 2592000\<rparr>"

definition example_env :: env where
  "example_env =
     \<lparr>clock = (\<lambda>n. 1700000000000000000 + int n),
      read_fails = False, write_fails = False, remove_fails = False, encode_fails = False,
      request_fails = False,
      info_reply = (\<lambda>u. Reply 200 (Some \<lparr>InfoCode = 1000, Version = 4, Salt = ''salt'',
                      Modulus = ''modulus'', ServerEphemeral = ''ephemeral'', SRPSession = ''srp'',
                      TwoFA = \<lparr>Enabled = 0, TOTP = 0\<rparr>\<rparr>)),
      auth_reply = (\<lambda>r. Reply 200 (Some example_session)),
      twofa_reply = (\<lambda>s c. Reply 200 (Some \<lparr>TwoFACode = 1000,
                      TwoFAScopes = [''twofactor'', ''vpn''], TwoFAError = []\<rparr>)),
      refresh_reply = (\<lambda>s. Reply 200 (Some (example_session\<lparr>AccessToken := ''access2''\<rparr>))),
      verify_reply = (\<lambda>s. Some 200),
      srp = (\<lambda>v u p s m b. SRPOk \<lparr>ClientEphemeral = ''A'', ClientProof = ''M1'',
                                   ExpectedServerProof = ''server''\<rparr>),
      EncodeToString = (\<lambda>b. CHR ''='' # b),
      ParseSessionDuration = (\<lambda>s. if s = ''0'' then (0, False)
                                   else if s = ''24h'' then (86400000000000, False)
                                   else (0, True)),
      SessionRefreshDays = 7\<rparr>"

definition example_config :: Config where
  "example_config =
     \<lparr>Username = ''alice'', Password = ''secret'', ClearSession = False, NoSession = False,
      ForceRefresh = False, SessionDuration = ''0''\<rparr>"

definition example_world :: world where
  "example_world = \<lparr>session_file = None, stdin = [], ticks = 0, trace = []\<rparr>"

text \<open>A session file saved for alice that expires in 20 days, one that expires in 3, and a
  remote party that refuses to refresh.\<close>

definition example_saved :: SavedSession where
  "example_saved =
     \<lparr>session = Some example_session, username = ''alice'',
      saved_at = 1700000000000000000 - 10 * 24 * Hour,
      expires_at = 1700000000000000000 + 20 * 24 * Hour\<rparr>"

definition expiring_saved :: SavedSession where
  "expiring_saved =
     \<lparr>session = Some example_session, username = ''alice'',
      saved_at = 1700000000000000000 - 27 * 24 * Hour,
      expires_at = 1700000000000000000 + 3 * 24 * Hour\<rparr>"

definition refresh_refused :: env where
  "refresh_refused =
     example_env\<lparr>refresh_reply := (\<lambda>s. Reply 200 (Some (example_session\<lparr>Code := 10013\<rparr>)))\<rparr>"

text \<open>A second account, a remote party whose server proof is not the expected one, and a
  session that has the second-factor scope without the VPN scope.\<close>

definition bob_config :: Config where
  "bob_config = example_config\<lparr>Username := ''bob''\<rparr>"

definition wrong_proof :: env where
  "wrong_proof =
     example_env\<lparr>auth_reply :=
       (\<lambda>r. Reply 200 (Some (example_session\<lparr>ServerProof := ''=forged''\<rparr>)))\<rparr>"

definition twofactor_session :: Session where
  "twofactor_session = example_session\<lparr>Scopes := [''self'', ''twofactor'']\<rparr>"

definition twofactor_saved :: SavedSession where
  "twofactor_saved = example_saved\<lparr>session := Some twofactor_session\<rparr>"

definition twofactor_env :: env where
  "twofactor_env =
     example_env\<lparr>auth_reply := (\<lambda>r. Reply 200 (Some twofactor_session)),
                 refresh_reply := (\<lambda>s. Reply 200 (Some twofactor_session))\<rparr>"

text \<open>A remote party that answers every call with the multi-status code, a request as
  \<open>buildAuthRequest\<close> makes it, and an SRP engine that only works on the empty password.\<close>

definition multi_status_env :: env where
  "multi_status_env =
     example_env\<lparr>info_reply := (\<lambda>u. Reply 200 (Some \<lparr>InfoCode = 1001, Version = 4, Salt = ''salt'',
                      Modulus = ''modulus'', ServerEphemeral = ''ephemeral'', SRPSession = ''srp'',
                      TwoFA = \<lparr>Enabled = 0, TOTP = 0\<rparr>\<rparr>)),
                 auth_reply := (\<lambda>r. Reply 200 (Some (example_session\<lparr>Code := 1001\<rparr>))),
                 twofa_reply := (\<lambda>s c. Reply 200 (Some \<lparr>TwoFACode = 1001,
                      TwoFAScopes = [''twofactor'', ''vpn''], TwoFAError = []\<rparr>)),
                 refresh_reply := (\<lambda>s. Reply 200 (Some (example_session\<lparr>Code := 1001\<rparr>)))\<rparr>"

definition example_request :: AuthRequest where
  "example_request =
     \<lparr>ReqUsername = ''alice'', ReqClientEphemeral = ''=A'', ReqClientProof = ''=M1'',
      ReqSRPSession = ''srp'', PersistentCookies = 0, TwoFactorCode = None\<rparr>"

definition empty_secret_env :: env where
  "empty_secret_env =
     example_env\<lparr>srp := (\<lambda>v u p s m b.
        if p = [] then SRPOk \<lparr>ClientEphemeral = ''A'', ClientProof = ''M1'',
                              ExpectedServerProof = ''server''\<rparr>
        else SRPCreateFails)\<rparr>"

text \<open>Authentication parameters that ask for a time-based second-factor code.\<close>

definition totp_info :: AuthInfoResponse where
  "totp_info =
     \<lparr>InfoCode = 1000, Version = 4, Salt = ''salt'', Modulus = ''modulus'',
      ServerEphemeral = ''ephemeral'', SRPSession = ''srp'', TwoFA = \<lparr>Enabled = 1, TOTP = 1\<rparr>\<rparr>"

definition totp_env :: env where
  "totp_env = example_env\<lparr>info_reply := (\<lambda>u. Reply 200 (Some totp_info))\<rparr>"

text \<open>A session whose declared lifetime, in nanoseconds, is beyond the largest duration.\<close>

definition long_lived_session :: Session where
  "long_lived_session = example_session\<lparr>ExpiresIn := 9223372037\<rparr>"

section \<open>Auxiliary lemmas\<close>

lemmas example_defs = example_session_def example_env_def example_config_def example_world_def
  example_saved_def

lemmas constant_defs = APICodeSuccess_def APICodeMultiStatus_def CodeSuccess_def
  CodeMailboxPasswordError_def EnabledTrue_def StatusOK_def StatusUnauthorized_def
  IsSuccessCode_def Second_def Hour_def wrap64_def Sub_def serverDeclaredLifetime_def
  refreshThreshold_def

lemmas store_defs = emit_def Now_def WriteFile_def Save_def Delete_def Load_def

lemmas remote_defs = RefreshSession_def VerifySession_def getAuthInfo_def sendAuthRequest_def
  submit2FA_def

lemmas input_defs = ReadString_def ReadPassword_def space1_def space2_def space3_def
  TrimSpace_def ensureUsername_def ensurePassword_def get2FACode_def

lemmas lifecycle_defs = generateSRPProofs_def buildAuthRequest_def checkSessionScopes_def
  handleSessionRefresh_def tryExistingSession_def handleExistingSession_def performFreshAuth_def
  upgradeSessionIfNeeded_def saveSessionIfEnabled_def Authenticate_fresh_def Authenticate_def

lemmas all_defs = example_defs constant_defs store_defs remote_defs input_defs lifecycle_defs

lemma emit_fields [simp]:
  "session_file (emit ev w) = session_file w"
  "stdin (emit ev w) = stdin w"
  "ticks (emit ev w) = ticks w"
  "trace (emit ev w) = trace w @ [ev]"
  by (simp_all add: emit_def)

lemma net_calls_emit [simp]:
  "net_calls (emit (Net ep) w) = net_calls w @ [ep]"
  "net_calls (emit (Print m) w) = net_calls w"
  "net_calls (emit ReadStdin w) = net_calls w"
  "net_calls (emit FileRead w) = net_calls w"
  "net_calls (emit FileWrite w) = net_calls w"
  "net_calls (emit FileRemove w) = net_calls w"
  by (simp_all add: net_calls_def)

lemma file_ops_emit [simp]:
  "file_ops (emit (Net ep) w) = file_ops w"
  "file_ops (emit (Print m) w) = file_ops w"
  "file_ops (emit ReadStdin w) = file_ops w"
  "file_ops (emit FileRead w) = file_ops w @ [FileRead]"
  "file_ops (emit FileWrite w) = file_ops w @ [FileWrite]"
  "file_ops (emit FileRemove w) = file_ops w @ [FileRemove]"
  by (simp_all add: file_ops_def)

lemma projections_update [simp]:
  "net_calls (w\<lparr>session_file := f\<rparr>) = net_calls w"
  "net_calls (w\<lparr>stdin := i\<rparr>) = net_calls w"
  "net_calls (w\<lparr>ticks := n\<rparr>) = net_calls w"
  "file_ops (w\<lparr>session_file := f\<rparr>) = file_ops w"
  "file_ops (w\<lparr>stdin := i\<rparr>) = file_ops w"
  "file_ops (w\<lparr>ticks := n\<rparr>) = file_ops w"
  by (simp_all add: net_calls_def file_ops_def)

lemma Save_file:
  "\<not> write_fails e \<Longrightarrow> \<not> encode_fails e \<Longrightarrow>
   Save e s u d w =
     (None, (emit FileWrite (w\<lparr>ticks := (if d = 0 then ticks w + 2 else ticks w + 3)\<rparr>))
       \<lparr>session_file := Some (Stored \<lparr>session = Some s, username = u, saved_at = clock e (ticks w),
           expires_at = (if d = 0 then clock e (Suc (ticks w)) + serverDeclaredLifetime s
              else min (clock e (Suc (Suc (ticks w))) + d)
                       (clock e (Suc (ticks w)) + serverDeclaredLifetime s))\<rparr>)\<rparr>)"
  by (simp add: Save_def Now_def WriteFile_def Let_def emit_def min_def)

lemma wrap64_id: "- (2 ^ 63) \<le> x \<Longrightarrow> x < 2 ^ 63 \<Longrightarrow> wrap64 x = x"
  by (simp add: wrap64_def)

lemma Load_changes_file:
  assumes "session_file (snd (Load e u w)) \<noteq> session_file w"
  shows "\<exists>ss. session_file w = Some (Stored ss) \<and> username ss = u
           \<and> clock e (ticks w) > expires_at ss \<and> \<not> read_fails e \<and> \<not> remove_fails e
           \<and> fst (Load e u w) = (None, 0, None)
           \<and> session_file (snd (Load e u w)) = None"
  using assms
  by (auto simp: Load_def Let_def Now_def Delete_def split: option.splits file_content.splits if_splits)

lemma Load_Some:
  assumes "Load e u w = ((Some s, t, None), w')"
  shows "session_file w' = session_file w \<and> net_calls w' = net_calls w
         \<and> file_ops w' = file_ops w @ [FileRead] \<and> stdin w' = stdin w"
  using assms
  by (auto simp: Load_def Let_def Now_def Delete_def split: option.splits file_content.splits if_splits)

lemma Load_malformed:
  "session_file w = Some (Malformed bytes) \<Longrightarrow> \<not> read_fails e \<Longrightarrow>
   Load e u w = ((None, 0, Some ErrUnmarshalSession), emit FileRead w)"
  by (simp add: Load_def Let_def)

lemma VerifySession_frame:
  "session_file (snd (VerifySession e s w)) = session_file w"
  "fst (VerifySession e s w) \<Longrightarrow>
     net_calls (snd (VerifySession e s w)) = net_calls w @ [LogicalsPath]"
  "file_ops (snd (VerifySession e s w)) = file_ops w"
  "stdin (snd (VerifySession e s w)) = stdin w"
  by (auto simp: VerifySession_def Let_def split: option.splits if_splits)

lemma ensureUsername_frame:
  assumes "ensureUsername cfg w = (r, cfg1, w1)"
  shows "session_file w1 = session_file w" "net_calls w1 = net_calls w" "file_ops w1 = file_ops w"
        "ticks w1 = ticks w"
        "ClearSession cfg1 = ClearSession cfg" "NoSession cfg1 = NoSession cfg"
        "ForceRefresh cfg1 = ForceRefresh cfg" "Password cfg1 = Password cfg"
        "SessionDuration cfg1 = SessionDuration cfg"
  using assms
  by (auto simp: ensureUsername_def ReadString_def Let_def split: if_splits option.splits list.splits)

lemma Delete_frame:
  "net_calls (snd (Delete e w)) = net_calls w"
  "file_ops (snd (Delete e w)) = file_ops w @ [FileRemove]"
  "\<not> remove_fails e \<Longrightarrow> session_file (snd (Delete e w)) = None"
  by (simp_all add: Delete_def Let_def split: option.splits)

lemma RefreshSession_frame:
  "net_calls (snd (RefreshSession e s w))
     = net_calls w @ (if request_fails e then [] else [RefreshPath])"
  "file_ops (snd (RefreshSession e s w)) = file_ops w"
  "session_file (snd (RefreshSession e s w)) = session_file w"
  by (simp_all add: RefreshSession_def Let_def split: reply.splits option.splits)

lemma RefreshSession_result: "fst (RefreshSession e s w) = fst (RefreshSession e s w')"
  by (simp add: RefreshSession_def Let_def split: reply.splits option.splits)

lemma getAuthInfo_frame:
  assumes "getAuthInfo e cfg w = (r, w')"
  shows "net_calls w' = net_calls w @ (if request_fails e then [] else [AuthInfoPath])
    \<and> file_ops w' = file_ops w \<and> session_file w' = session_file w \<and> stdin w' = stdin w"
  using assms by (auto simp: getAuthInfo_def Let_def split: reply.splits option.splits if_splits)

lemma getAuthInfo_sent:
  assumes "getAuthInfo e cfg w = (Inr authInfo, w')"
  shows "net_calls w' = net_calls w @ [AuthInfoPath]"
  using assms by (auto simp: getAuthInfo_def Let_def split: reply.splits option.splits if_splits)

lemma sendAuthRequest_frame:
  assumes "sendAuthRequest e req w = (r, w')"
  shows "net_calls w' = net_calls w @ (if request_fails e then [] else [AuthPath])
    \<and> file_ops w' = file_ops w \<and> session_file w' = session_file w \<and> stdin w' = stdin w"
  using assms by (auto simp: sendAuthRequest_def Let_def split: reply.splits option.splits if_splits)

lemma submit2FA_frame:
  assumes "submit2FA e s code w = (r, w')"
  shows "net_calls w' = net_calls w @ (if request_fails e then [] else [TwoFAPath])
    \<and> file_ops w' = file_ops w \<and> session_file w' = session_file w \<and> stdin w' = stdin w"
  using assms by (auto simp: submit2FA_def Let_def split: reply.splits option.splits if_splits)

lemma get2FACode_frame:
  assumes "get2FACode w = (r, w')"
  shows "net_calls w' = net_calls w \<and> file_ops w' = file_ops w
    \<and> session_file w' = session_file w"
  using assms
  by (auto simp: get2FACode_def ReadString_def Let_def split: list.splits option.splits if_splits)

lemma ensurePassword_frame:
  assumes "ensurePassword cfg w = (r, cfg1, w')"
  shows "net_calls w' = net_calls w \<and> file_ops w' = file_ops w \<and> session_file w' = session_file w
    \<and> Username cfg1 = Username cfg \<and> NoSession cfg1 = NoSession cfg
    \<and> SessionDuration cfg1 = SessionDuration cfg"
  using assms
  by (auto simp: ensurePassword_def ReadPassword_def Let_def split: list.splits option.splits if_splits)

lemma performFreshAuth_frame:
  assumes "performFreshAuth e cfg w = (r, w')"
  shows "count_list (net_calls w') RefreshPath = count_list (net_calls w) RefreshPath
    \<and> file_ops w' = file_ops w \<and> session_file w' = session_file w"
  using assms
  by (auto simp: performFreshAuth_def split: prod.splits sum.splits if_splits
      dest!: getAuthInfo_frame sendAuthRequest_frame get2FACode_frame)

lemma upgradeSessionIfNeeded_frame:
  assumes "upgradeSessionIfNeeded e s w = (r, s', w')"
  shows "count_list (net_calls w') RefreshPath = count_list (net_calls w) RefreshPath
    \<and> file_ops w' = file_ops w \<and> session_file w' = session_file w"
  using assms
  by (auto simp: upgradeSessionIfNeeded_def split: prod.splits sum.splits if_splits
      dest!: submit2FA_frame get2FACode_frame)

lemma saveSessionIfEnabled_frame:
  "net_calls (saveSessionIfEnabled e cfg s w) = net_calls w"
  by (auto simp: saveSessionIfEnabled_def Let_def Save_def WriteFile_def Now_def
      split: prod.splits option.splits if_splits)

lemma Authenticate_fresh_no_refresh:
  "count_list (net_calls (snd (Authenticate_fresh e cfg w))) RefreshPath
     = count_list (net_calls w) RefreshPath"
  by (auto simp: Authenticate_fresh_def saveSessionIfEnabled_frame
      split: prod.splits sum.splits option.splits
      dest!: ensurePassword_frame performFreshAuth_frame upgradeSessionIfNeeded_frame)

lemma handleSessionRefresh_fails:
  assumes "RefreshSession e s (emit (Print reason) w) = (Inl err, w')"
  shows "handleSessionRefresh e cfg s reason w =
     (Inl err, snd (Delete e
        (emit (Print ''(Your trusted device status for MFA will be preserved)'')
          (emit (Print ''Re-authenticating with password...'')
            (emit (Print ''Token refresh failed'') w')))))"
  using assms by (simp add: handleSessionRefresh_def)

lemma RefreshSession_fails_anywhere:
  assumes "isl (fst (RefreshSession e s w))"
  shows "\<exists>err. RefreshSession e s w' = (Inl err, snd (RefreshSession e s w'))"
proof -
  have "isl (fst (RefreshSession e s w'))"
    using assms RefreshSession_result[of e s w' w] by simp
  then show ?thesis
    by (cases "RefreshSession e s w'") (auto simp: isl_def)
qed

lemma handleExistingSession_refresh_fails:
  assumes "\<not> ClearSession cfg1" "\<not> NoSession cfg1"
    and l: "Load e (Username cfg1) w1 = ((Some s, t, None), w2)"
    and "ForceRefresh cfg1 \<or> (t < refreshThreshold e \<and> t > 0)"
    and "isl (fst (RefreshSession e s w2))"
  shows "\<exists>reason. handleExistingSession e cfg1 w1 =
     (None, snd (Delete e
        (emit (Print ''(Your trusted device status for MFA will be preserved)'')
          (emit (Print ''Re-authenticating with password...'')
            (emit (Print ''Token refresh failed'')
              (snd (RefreshSession e s (emit (Print reason) w2))))))))"
proof -
  define reason where "reason = (if ForceRefresh cfg1 then ''Forcing session refresh''
     else ''Session expires soon, attempting refresh...'')"
  obtain err where r: "RefreshSession e s (emit (Print reason) w2)
      = (Inl err, snd (RefreshSession e s (emit (Print reason) w2)))"
    using RefreshSession_fails_anywhere[OF assms(5)] by blast
  have t: "tryExistingSession e cfg1 w1 = (case handleSessionRefresh e cfg1 s reason w2 of
                  (Inl err, w2) \<Rightarrow> ((None, Some err), w2)
                | (Inr s, w2) \<Rightarrow> ((Some s, None), w2))"
    using l assms(4) by (auto simp: tryExistingSession_def reason_def)
  have "handleExistingSession e cfg1 w1 =
     (None, snd (Delete e
        (emit (Print ''(Your trusted device status for MFA will be preserved)'')
          (emit (Print ''Re-authenticating with password...'')
            (emit (Print ''Token refresh failed'')
              (snd (RefreshSession e s (emit (Print reason) w2))))))))"
    using assms(1,2) by (simp add: handleExistingSession_def t handleSessionRefresh_fails[OF r])
  then show ?thesis by blast
qed

lemma Authenticate_fresh_success:
  assumes "ensurePassword cfg1 w3 = (None, cfg2, w4)"
    and "performFreshAuth e cfg2 w4 = (Inr fs, w5)"
    and "upgradeSessionIfNeeded e fs w5 = (None, fs', w6)"
  shows "Authenticate_fresh e cfg1 w3 = (Inr fs', saveSessionIfEnabled e cfg2 fs' w6)"
  using assms by (simp add: Authenticate_fresh_def)

lemma saveSessionIfEnabled_file:
  assumes "\<not> NoSession cfg" "\<not> write_fails e" "\<not> encode_fails e"
  shows "\<exists>ss. session_file (saveSessionIfEnabled e cfg s w) = Some (Stored ss)
           \<and> session ss = Some s \<and> username ss = Username cfg"
  using assms
  by (auto simp: saveSessionIfEnabled_def Let_def Save_def WriteFile_def Now_def
      split: prod.splits)

lemma serverDeclaredLifetime_seconds:
  assumes "- (2 ^ 63) \<le> ExpiresIn s * Second" and "ExpiresIn s * Second < 2 ^ 63"
  shows "serverDeclaredLifetime s = ExpiresIn s * Second"
  using assms by (simp add: serverDeclaredLifetime_def wrap64_id)

lemma example_world_quiet [simp]:
  "net_calls example_world = []" "file_ops example_world = []"
  by (simp_all add: net_calls_def file_ops_def example_world_def)

lemma scan_scopes:
  "foldl (\<lambda>(hasVPN, hasTwoFactor) scope.
              if scope = ''vpn'' then (True, hasTwoFactor)
              else if scope = ''twofactor'' then (hasVPN, True)
              else (hasVPN, hasTwoFactor)) (a, b) xs
   = (a \<or> ''vpn'' \<in> set xs, b \<or> ''twofactor'' \<in> set xs)"
  by (induction xs arbitrary: a b) auto

lemma checkSessionScopes_set:
  "checkSessionScopes s = (''vpn'' \<in> set (Scopes s), ''twofactor'' \<in> set (Scopes s))"
  by (simp add: checkSessionScopes_def scan_scopes)

lemma upgradeSessionIfNeeded_skip:
  assumes "''vpn'' \<in> set (Scopes s) \<or> ''twofactor'' \<notin> set (Scopes s)"
  shows "upgradeSessionIfNeeded e s w = (None, s, w)"
  using assms by (auto simp: upgradeSessionIfNeeded_def checkSessionScopes_set)

lemma upgradeSessionIfNeeded_upgrade:
  assumes "''vpn'' \<notin> set (Scopes s)" "''twofactor'' \<in> set (Scopes s)"
  shows "upgradeSessionIfNeeded e s w =
     (case get2FACode
             (emit (Print ''Session lacks VPN scope - 2FA verification required to upgrade session...'') w) of
        (Inl err, w1) \<Rightarrow> (Some (Wrapped ''failed to get 2FA code'' err), s, w1)
      | (Inr code, w1) \<Rightarrow>
          (case submit2FA e s code w1 of
             (Inl err, w2) \<Rightarrow> (Some (Wrapped ''2FA verification failed'' err), s, w2)
           | (Inr updatedScopes, w2) \<Rightarrow>
               (None, s\<lparr>Scopes := updatedScopes\<rparr>,
                emit (Print ''2FA verified - session upgraded with VPN scope'') w2)))"
  using assms by (simp add: upgradeSessionIfNeeded_def checkSessionScopes_set)

lemma numeric_iff:
  "numeric cs \<longleftrightarrow> (\<forall>c\<in>set cs. (48::nat) \<le> of_char c \<and> (of_char c :: nat) \<le> 57)"
  by (induction cs) auto

lemma get2FACode_result:
  "fst (get2FACode w) =
     (case stdin w of
        [] \<Rightarrow> Inl ErrRead2FA
      | None # rest \<Rightarrow> Inl ErrRead2FA
      | Some line # rest \<Rightarrow>
          if TrimSpace line = [] then Inl Err2FAEmpty
          else if numeric (TrimSpace line) then Inr (TrimSpace line)
          else Inl Err2FANotNumeric)"
  by (simp add: get2FACode_def ReadString_def Let_def split: list.splits option.splits)

lemma get2FACode_net: "net_calls (snd (get2FACode w)) = net_calls w"
  using get2FACode_frame[of w "fst (get2FACode w)" "snd (get2FACode w)"] by simp

section \<open>Server proof\<close>

text \<open>
  C1. In a fresh authentication (no existing session was returned, the password is at hand, the
  authentication parameters and the SRP proofs were obtained, the second-factor code was read if
  it was asked for), when \<open>sendAuthRequest\<close> succeeds with a session whose server proof is
  not the encoding of the expected one, \<open>Authenticate\<close> returns the proof-mismatch error. No
  file operation follows the existing-session step, so nothing is persisted.
\<close>

theorem server_proof_mismatch_fails:
  assumes u: "ensureUsername cfg w = (None, cfg1, w1)"
    and h: "handleExistingSession e cfg1 w1 = (None, w2)"
    and p: "ensurePassword cfg1 w2 = (None, cfg2, w3)"
    and i: "getAuthInfo e cfg2 w3 = (Inr authInfo, w4)"
    and g: "generateSRPProofs e cfg2 authInfo = Inr proofs"
    and c: "if Enabled (TwoFA authInfo) = EnabledTrue \<and> TOTP (TwoFA authInfo) = EnabledTrue
            then \<exists>code. get2FACode w4 = (Inr code, w5)
                   \<and> authReq = (buildAuthRequest e cfg2 authInfo proofs)\<lparr>TwoFactorCode := Some code\<rparr>
            else w5 = w4 \<and> authReq = buildAuthRequest e cfg2 authInfo proofs"
    and s: "sendAuthRequest e authReq w5 = (Inr s, w6)"
    and x: "ServerProof s \<noteq> EncodeToString e (ExpectedServerProof proofs)"
  shows "Authenticate e cfg w = (Inl ErrServerProof, w6)
       \<and> file_ops w6 = file_ops w2 \<and> session_file w6 = session_file w2"
proof -
  have f: "performFreshAuth e cfg2 w3 = (Inl ErrServerProof, w6)"
    using i g c s x by (auto simp: performFreshAuth_def split: if_splits)
  have a: "Authenticate e cfg w = (Inl ErrServerProof, w6)"
    using u h p f by (simp add: Authenticate_def Authenticate_fresh_def)
  show ?thesis
    using a ensurePassword_frame[OF p] performFreshAuth_frame[OF f] by simp
qed

theorem server_proof_mismatch_fails_witness:
  "ensureUsername example_config example_world = (None, example_config, example_world)
   \<and> handleExistingSession wrong_proof example_config example_world
       = (None, emit FileRead example_world)
   \<and> ensurePassword example_config (emit FileRead example_world)
       = (None, example_config, emit FileRead example_world)
   \<and> fst (sendAuthRequest wrong_proof
           (buildAuthRequest wrong_proof example_config
              \<lparr>InfoCode = 1000, Version = 4, Salt = ''salt'', Modulus = ''modulus'',
               ServerEphemeral = ''ephemeral'', SRPSession = ''srp'',
               TwoFA = \<lparr>Enabled = 0, TOTP = 0\<rparr>\<rparr>
              \<lparr>ClientEphemeral = ''A'', ClientProof = ''M1'', ExpectedServerProof = ''server''\<rparr>)
           (emit (Net AuthInfoPath) (emit FileRead example_world)))
       = Inr (example_session\<lparr>ServerProof := ''=forged''\<rparr>)
   \<and> ServerProof (example_session\<lparr>ServerProof := ''=forged''\<rparr>)
       \<noteq> EncodeToString wrong_proof ''server''
   \<and> Authenticate wrong_proof example_config example_world
       = (Inl ErrServerProof,
          \<lparr>session_file = None, stdin = [], ticks = 0,
           trace = [FileRead, Net AuthInfoPath, Net AuthPath]\<rparr>)"
proof -
  let ?ai = "\<lparr>InfoCode = 1000, Version = 4, Salt = ''salt'', Modulus = ''modulus'',
               ServerEphemeral = ''ephemeral'', SRPSession = ''srp'',
               TwoFA = \<lparr>Enabled = 0, TOTP = 0\<rparr>\<rparr>"
  let ?pr = "\<lparr>ClientEphemeral = ''A'', ClientProof = ''M1'', ExpectedServerProof = ''server''\<rparr>"
  let ?w2 = "emit FileRead example_world"
  let ?w4 = "emit (Net AuthInfoPath) ?w2"
  let ?w6 = "emit (Net AuthPath) ?w4"
  let ?req = "buildAuthRequest wrong_proof example_config ?ai ?pr"
  let ?s = "example_session\<lparr>ServerProof := ''=forged''\<rparr>"
  have u: "ensureUsername example_config example_world = (None, example_config, example_world)"
    by (simp add: ensureUsername_def example_config_def)
  have h: "handleExistingSession wrong_proof example_config example_world = (None, ?w2)"
    by (simp add: handleExistingSession_def tryExistingSession_def Load_def example_config_def
        example_world_def emit_def)
  have p: "ensurePassword example_config ?w2 = (None, example_config, ?w2)"
    by (simp add: ensurePassword_def example_config_def)
  have i: "getAuthInfo wrong_proof example_config ?w2 = (Inr ?ai, ?w4)"
    by (simp add: getAuthInfo_def wrong_proof_def example_env_def constant_defs)
  have g: "generateSRPProofs wrong_proof example_config ?ai = Inr ?pr"
    by (simp add: generateSRPProofs_def wrong_proof_def example_env_def)
  have c: "if Enabled (TwoFA ?ai) = EnabledTrue \<and> TOTP (TwoFA ?ai) = EnabledTrue
            then \<exists>code. get2FACode ?w4 = (Inr code, ?w4)
                   \<and> ?req = (buildAuthRequest wrong_proof example_config ?ai ?pr)\<lparr>TwoFactorCode := Some code\<rparr>
            else ?w4 = ?w4 \<and> ?req = buildAuthRequest wrong_proof example_config ?ai ?pr"
    by (simp add: EnabledTrue_def)
  have s: "sendAuthRequest wrong_proof ?req ?w4 = (Inr ?s, ?w6)"
    by (simp add: sendAuthRequest_def wrong_proof_def example_env_def example_session_def
        constant_defs)
  have x: "ServerProof ?s \<noteq> EncodeToString wrong_proof (ExpectedServerProof ?pr)"
    by (simp add: wrong_proof_def example_env_def)
  show ?thesis
    using server_proof_mismatch_fails [OF u h p i g c s x] u h p s x
    by (simp add: emit_def example_world_def)
qed

section \<open>Expiry of a saved session\<close>

text \<open>
  C2 (as amended). \<open>Save\<close> reads the clock three times: for \<open>SavedAt\<close>, for the sum with
  the server-declared lifetime and, when a duration was requested, for the sum with that
  duration; the claim's now is, in each sum, the reading taken for it. When the nanoseconds of
  the \<open>ExpiresIn\<close> seconds fit in a signed 64-bit duration and the encoding and the write do
  not fail, the file holds the session under the given identity with \<open>expires_at\<close> the
  reading plus \<open>ExpiresIn\<close> seconds when the requested duration is zero, and otherwise the
  smaller of the reading plus the requested duration and the reading plus \<open>ExpiresIn\<close>
  seconds. With persistence enabled \<open>saveSessionIfEnabled\<close> saves so, the requested duration
  being the parsed session duration of the configuration, or zero when it does not parse.
\<close>

theorem Save_expiry:
  assumes "\<not> write_fails e" and "\<not> encode_fails e"
    and "- (2 ^ 63) \<le> ExpiresIn s * Second" and "ExpiresIn s * Second < 2 ^ 63"
  shows "session_file (snd (Save e s u d w)) =
     Some (Stored \<lparr>session = Some s, username = u, saved_at = clock e (ticks w),
       expires_at =
         (if d = 0 then clock e (Suc (ticks w)) + ExpiresIn s * Second
          else min (clock e (Suc (Suc (ticks w))) + d)
                   (clock e (Suc (ticks w)) + ExpiresIn s * Second))\<rparr>)
   \<and> (\<not> NoSession cfg \<longrightarrow>
        session_file (saveSessionIfEnabled e cfg s w) =
          Some (Stored \<lparr>session = Some s, username = Username cfg, saved_at = clock e (ticks w),
            expires_at =
              (if snd (ParseSessionDuration e (SessionDuration cfg))
                  \<or> fst (ParseSessionDuration e (SessionDuration cfg)) = 0
               then clock e (Suc (ticks w)) + ExpiresIn s * Second
               else min (clock e (Suc (Suc (ticks w)))
                           + fst (ParseSessionDuration e (SessionDuration cfg)))
                        (clock e (Suc (ticks w)) + ExpiresIn s * Second))\<rparr>))"
proof -
  have l: "serverDeclaredLifetime s = ExpiresIn s * Second"
    using assms(3,4) by (rule serverDeclaredLifetime_seconds)
  show ?thesis
    using assms(1,2)
    by (auto simp: Save_file l saveSessionIfEnabled_def Let_def split: prod.splits)
qed

theorem Save_expiry_witness:
  "\<not> write_fails example_env \<and> \<not> encode_fails example_env
   \<and> - (2 ^ 63) \<le> ExpiresIn example_session * Second
   \<and> ExpiresIn example_session * Second < 2 ^ 63
   \<and> ExpiresIn example_session * Second = 2592000000000000
   \<and> session_file (snd (Save example_env example_session ''carol'' 86400000000000 example_world)) =
     Some (Stored \<lparr>session = Some example_session, username = ''carol'',
       saved_at = 1700000000000000000, expires_at = 1700086400000000002\<rparr>)
   \<and> session_file (snd (Save example_env example_session ''carol'' 0 example_world)) =
     Some (Stored \<lparr>session = Some example_session, username = ''carol'',
       saved_at = 1700000000000000000, expires_at = 1702592000000000001\<rparr>)
   \<and> \<not> NoSession (example_config\<lparr>SessionDuration := ''24h''\<rparr>)
   \<and> session_file (saveSessionIfEnabled example_env (example_config\<lparr>SessionDuration := ''24h''\<rparr>)
         example_session example_world) =
     Some (Stored \<lparr>session = Some example_session, username = ''alice'',
       saved_at = 1700000000000000000, expires_at = 1700086400000000002\<rparr>)"
proof -
  have h: "\<not> write_fails example_env" "\<not> encode_fails example_env"
    by (simp_all add: example_env_def)
  have b: "- (2 ^ 63) \<le> ExpiresIn example_session * Second"
    "ExpiresIn example_session * Second < 2 ^ 63"
    by (simp_all add: example_session_def Second_def)
  have n: "\<not> NoSession (example_config\<lparr>SessionDuration := ''24h''\<rparr>)"
    by (simp add: example_config_def)
  show ?thesis
    using h b n
      Save_expiry [OF h b, of "''carol''" 86400000000000 example_world
        "example_config\<lparr>SessionDuration := ''24h''\<rparr>"]
      Save_expiry [OF h b, of "''carol''" 0 example_world example_config]
    by (simp add: example_session_def example_env_def example_config_def example_world_def
        Second_def)
qed

text \<open>
  C2 as stated fails for a lifetime beyond the range of a duration: for \<open>ExpiresIn\<close> of
  9223372037 seconds the product \<open>time.Duration(session.ExpiresIn) * time.Second\<close> wraps to a
  negative duration, and with no requested duration \<open>Save\<close> stores an expiry that lies before
  \<open>saved_at\<close> instead of the reading plus that many seconds.
\<close>

theorem lifetime_beyond_duration_range:
  "ExpiresIn long_lived_session = 9223372037
   \<and> clock example_env 1 + ExpiresIn long_lived_session * Second = 10923372037000000001
   \<and> session_file (snd (Save example_env long_lived_session ''carol'' 0 example_world)) =
     Some (Stored \<lparr>session = Some long_lived_session, username = ''carol'',
       saved_at = 1700000000000000000, expires_at = - 7523372036709551615\<rparr>)
   \<and> session_file (snd (Save example_env long_lived_session ''carol'' 0 example_world)) \<noteq>
     Some (Stored \<lparr>session = Some long_lived_session, username = ''carol'',
       saved_at = 1700000000000000000,
       expires_at = clock example_env 1 + ExpiresIn long_lived_session * Second\<rparr>)"
  by (simp add: store_defs example_defs constant_defs long_lived_session_def)

section \<open>Scope upgrade\<close>

text \<open>
  C3 (as amended). A session that the existing-session step yields, reused or refreshed, is
  returned as it is. After a successful fresh authentication: when the scopes contain
  \<open>vpn\<close> or lack \<open>twofactor\<close> the session is saved and returned unchanged; otherwise a
  second-factor code is asked for and submitted, a failure of either ends the run with that
  error, and on success the session is saved and returned with the scopes that came back.
\<close>

theorem scope_upgrade_after_fresh_login_only:
  assumes u: "ensureUsername cfg w = (None, cfg1, w1)"
  shows "(\<forall>s w2. handleExistingSession e cfg1 w1 = (Some s, w2) \<longrightarrow>
            Authenticate e cfg w = (Inr s, w2))
       \<and> (\<forall>w2 cfg2 w3 s w4.
            handleExistingSession e cfg1 w1 = (None, w2)
            \<longrightarrow> ensurePassword cfg1 w2 = (None, cfg2, w3)
            \<longrightarrow> performFreshAuth e cfg2 w3 = (Inr s, w4)
            \<longrightarrow> (if ''vpn'' \<in> set (Scopes s) \<or> ''twofactor'' \<notin> set (Scopes s)
                 then Authenticate e cfg w = (Inr s, saveSessionIfEnabled e cfg2 s w4)
                 else (case get2FACode
                        (emit (Print ''Session lacks VPN scope - 2FA verification required to upgrade session...'') w4) of
                         (Inl err, w5) \<Rightarrow>
                           Authenticate e cfg w = (Inl (Wrapped ''failed to get 2FA code'' err), w5)
                       | (Inr code, w5) \<Rightarrow>
                           (case submit2FA e s code w5 of
                              (Inl err, w6) \<Rightarrow>
                                Authenticate e cfg w
                                  = (Inl (Wrapped ''2FA verification failed'' err), w6)
                            | (Inr updatedScopes, w6) \<Rightarrow>
                                Authenticate e cfg w
                                  = (Inr (s\<lparr>Scopes := updatedScopes\<rparr>),
                                     saveSessionIfEnabled e cfg2 (s\<lparr>Scopes := updatedScopes\<rparr>)
                                       (emit (Print ''2FA verified - session upgraded with VPN scope'') w6))))))"
proof -
  have 1: "Authenticate e cfg w = (Inr s, w2)"
    if "handleExistingSession e cfg1 w1 = (Some s, w2)" for s w2
    using u that by (simp add: Authenticate_def)
  have 2: "(if ''vpn'' \<in> set (Scopes s) \<or> ''twofactor'' \<notin> set (Scopes s)
                 then Authenticate e cfg w = (Inr s, saveSessionIfEnabled e cfg2 s w4)
                 else (case get2FACode
                        (emit (Print ''Session lacks VPN scope - 2FA verification required to upgrade session...'') w4) of
                         (Inl err, w5) \<Rightarrow>
                           Authenticate e cfg w = (Inl (Wrapped ''failed to get 2FA code'' err), w5)
                       | (Inr code, w5) \<Rightarrow>
                           (case submit2FA e s code w5 of
                              (Inl err, w6) \<Rightarrow>
                                Authenticate e cfg w
                                  = (Inl (Wrapped ''2FA verification failed'' err), w6)
                            | (Inr updatedScopes, w6) \<Rightarrow>
                                Authenticate e cfg w
                                  = (Inr (s\<lparr>Scopes := updatedScopes\<rparr>),
                                     saveSessionIfEnabled e cfg2 (s\<lparr>Scopes := updatedScopes\<rparr>)
                                       (emit (Print ''2FA verified - session upgraded with VPN scope'') w6)))))"
    if h: "handleExistingSession e cfg1 w1 = (None, w2)"
      and p: "ensurePassword cfg1 w2 = (None, cfg2, w3)"
      and f: "performFreshAuth e cfg2 w3 = (Inr s, w4)"
    for w2 cfg2 w3 s w4
  proof -
    have a: "Authenticate e cfg w =
        (case upgradeSessionIfNeeded e s w4 of
           (Some err, s1, w5) \<Rightarrow> (Inl err, w5)
         | (None, s1, w5) \<Rightarrow> (Inr s1, saveSessionIfEnabled e cfg2 s1 w5))"
      using u h p f by (simp add: Authenticate_def Authenticate_fresh_def)
    show ?thesis
    proof (cases "''vpn'' \<in> set (Scopes s) \<or> ''twofactor'' \<notin> set (Scopes s)")
      case True
      then show ?thesis using a upgradeSessionIfNeeded_skip[OF True] by simp
    next
      case False
      then have n: "''vpn'' \<notin> set (Scopes s)" "''twofactor'' \<in> set (Scopes s)" by simp_all
      show ?thesis
        using False a upgradeSessionIfNeeded_upgrade[OF n, of e w4]
        by (auto split: prod.splits sum.splits)
    qed
  qed
  show ?thesis using 1 2 by blast
qed

theorem scope_upgrade_after_fresh_login_only_witness:
  "ensureUsername example_config (example_world\<lparr>stdin := [Some ''123456\<newline>'']\<rparr>)
     = (None, example_config, example_world\<lparr>stdin := [Some ''123456\<newline>'']\<rparr>)
   \<and> handleExistingSession twofactor_env example_config
        (example_world\<lparr>stdin := [Some ''123456\<newline>'']\<rparr>)
       = (None, emit FileRead (example_world\<lparr>stdin := [Some ''123456\<newline>'']\<rparr>))
   \<and> ensurePassword example_config (emit FileRead (example_world\<lparr>stdin := [Some ''123456\<newline>'']\<rparr>))
       = (None, example_config, emit FileRead (example_world\<lparr>stdin := [Some ''123456\<newline>'']\<rparr>))
   \<and> fst (performFreshAuth twofactor_env example_config
            (emit FileRead (example_world\<lparr>stdin := [Some ''123456\<newline>'']\<rparr>)))
       = Inr twofactor_session
   \<and> ''vpn'' \<notin> set (Scopes twofactor_session) \<and> ''twofactor'' \<in> set (Scopes twofactor_session)
   \<and> fst (Authenticate twofactor_env example_config
            (example_world\<lparr>stdin := [Some ''123456\<newline>'']\<rparr>))
       = Inr (twofactor_session\<lparr>Scopes := [''twofactor'', ''vpn'']\<rparr>)
   \<and> net_calls (snd (Authenticate twofactor_env example_config
            (example_world\<lparr>stdin := [Some ''123456\<newline>'']\<rparr>)))
       = [AuthInfoPath, AuthPath, TwoFAPath]"
proof -
  let ?w = "example_world\<lparr>stdin := [Some ''123456\<newline>'']\<rparr>"
  let ?w2 = "emit FileRead ?w"
  let ?w4 = "emit (Net AuthPath) (emit (Net AuthInfoPath) ?w2)"
  let ?w5 = "(emit ReadStdin (emit (Print ''2FA Code: '')
      (emit (Print ''Session lacks VPN scope - 2FA verification required to upgrade session...'') ?w4)))
        \<lparr>stdin := []\<rparr>"
  have u: "ensureUsername example_config ?w = (None, example_config, ?w)"
    by (simp add: ensureUsername_def example_config_def)
  have h: "handleExistingSession twofactor_env example_config ?w = (None, ?w2)"
    by (simp add: handleExistingSession_def tryExistingSession_def Load_def example_config_def
        example_world_def emit_def)
  have p: "ensurePassword example_config ?w2 = (None, example_config, ?w2)"
    by (simp add: ensurePassword_def example_config_def)
  have f: "performFreshAuth twofactor_env example_config ?w2 = (Inr twofactor_session, ?w4)"
    by (simp add: performFreshAuth_def getAuthInfo_def generateSRPProofs_def sendAuthRequest_def
        buildAuthRequest_def twofactor_env_def twofactor_session_def example_env_def
        example_session_def example_config_def constant_defs)
  have sc: "''vpn'' \<notin> set (Scopes twofactor_session)" "''twofactor'' \<in> set (Scopes twofactor_session)"
    by (simp_all add: twofactor_session_def example_session_def)
  have c: "get2FACode
      (emit (Print ''Session lacks VPN scope - 2FA verification required to upgrade session...'') ?w4)
      = (Inr ''123456'', ?w5)"
    by (simp add: input_defs emit_def example_world_def)
  have t: "submit2FA twofactor_env twofactor_session ''123456'' ?w5
      = (Inr [''twofactor'', ''vpn''], emit (Net TwoFAPath) ?w5)"
    by (simp add: submit2FA_def twofactor_env_def example_env_def constant_defs)
  have a: "Authenticate twofactor_env example_config ?w
      = (Inr (twofactor_session\<lparr>Scopes := [''twofactor'', ''vpn'']\<rparr>),
         saveSessionIfEnabled twofactor_env example_config
           (twofactor_session\<lparr>Scopes := [''twofactor'', ''vpn'']\<rparr>)
           (emit (Print ''2FA verified - session upgraded with VPN scope'')
              (emit (Net TwoFAPath) ?w5)))"
    using scope_upgrade_after_fresh_login_only [OF u, of twofactor_env, THEN conjunct2,
        rule_format, OF h p f] sc c t
    by simp
  have n: "net_calls (snd (Authenticate twofactor_env example_config ?w))
      = [AuthInfoPath, AuthPath, TwoFAPath]"
    by (simp add: a saveSessionIfEnabled_frame)
  show ?thesis
    using u h p f sc a n by simp
qed

text \<open>
  C3 as stated fails for existing sessions: a saved session with the \<open>twofactor\<close> scope and
  without the \<open>vpn\<close> scope is returned, both when reused and when refreshed, without a
  read from the terminal and without a call of the second-factor endpoint.
\<close>

theorem existing_session_is_not_upgraded:
  "''twofactor'' \<in> set (Scopes twofactor_session) \<and> ''vpn'' \<notin> set (Scopes twofactor_session)
   \<and> Authenticate twofactor_env example_config
        (example_world\<lparr>session_file := Some (Stored twofactor_saved),
                       stdin := [Some ''123456\<newline>'']\<rparr>)
      = (Inr twofactor_session,
         \<lparr>session_file = Some (Stored twofactor_saved), stdin = [Some ''123456\<newline>''],
          ticks = 1, trace = [FileRead, Net LogicalsPath, Print ''Using saved session'']\<rparr>)
   \<and> Authenticate twofactor_env (example_config\<lparr>ForceRefresh := True\<rparr>)
        (example_world\<lparr>session_file := Some (Stored twofactor_saved),
                       stdin := [Some ''123456\<newline>'']\<rparr>)
      = (Inr twofactor_session,
         \<lparr>session_file = Some (Stored \<lparr>session = Some twofactor_session, username = ''alice'',
              saved_at = 1700000000000000001, expires_at = 1702592000000000002\<rparr>),
          stdin = [Some ''123456\<newline>''], ticks = 3,
          trace = [FileRead, Print ''Forcing session refresh'', Net RefreshPath,
                   Print ''Session refreshed successfully!'', FileWrite]\<rparr>)"
  by (simp add: all_defs twofactor_env_def twofactor_saved_def twofactor_session_def)

section \<open>Failure of a refresh\<close>

text \<open>
  C4. When a saved session is loaded, a refresh is attempted (forced, or the time until expiry is
  positive and below the renewal threshold) and \<open>RefreshSession\<close> fails, the existing-session
  step yields no session after exactly one refresh call (none when the request could not be
  built) and one removal of the session file, and \<open>Authenticate\<close> goes on with the fresh
  login from there; the refresh endpoint is not called again. When the fresh login and the scope
  upgrade succeed and the encoding and the write do not fail, the run returns the new session
  and the session file holds it.
\<close>

theorem refresh_failure_falls_back:
  assumes u: "ensureUsername cfg w = (None, cfg1, w1)"
    and c: "\<not> ClearSession cfg" and n: "\<not> NoSession cfg"
    and l: "Load e (Username cfg1) w1 = ((Some s, t, None), w2)"
    and a: "ForceRefresh cfg \<or> (t < refreshThreshold e \<and> t > 0)"
    and f: "isl (fst (RefreshSession e s w2))"
  shows "fst (handleExistingSession e cfg1 w1) = None
       \<and> Authenticate e cfg w = Authenticate_fresh e cfg1 (snd (handleExistingSession e cfg1 w1))
       \<and> net_calls (snd (handleExistingSession e cfg1 w1))
           = net_calls w @ (if request_fails e then [] else [RefreshPath])
       \<and> file_ops (snd (handleExistingSession e cfg1 w1)) = file_ops w @ [FileRead, FileRemove]
       \<and> (\<not> remove_fails e \<longrightarrow> session_file (snd (handleExistingSession e cfg1 w1)) = None)
       \<and> count_list (net_calls (snd (Authenticate e cfg w))) RefreshPath
           = count_list (net_calls w) RefreshPath + (if request_fails e then 0 else 1)
       \<and> (\<forall>cfg2 w4 fs w5 fs' w6.
            ensurePassword cfg1 (snd (handleExistingSession e cfg1 w1)) = (None, cfg2, w4)
            \<longrightarrow> performFreshAuth e cfg2 w4 = (Inr fs, w5)
            \<longrightarrow> upgradeSessionIfNeeded e fs w5 = (None, fs', w6)
            \<longrightarrow> \<not> write_fails e \<longrightarrow> \<not> encode_fails e
            \<longrightarrow> fst (Authenticate e cfg w) = Inr fs'
                \<and> (\<exists>ss. session_file (snd (Authenticate e cfg w)) = Some (Stored ss)
                        \<and> session ss = Some fs' \<and> username ss = Username cfg1))"
proof -
  let ?w3 = "snd (handleExistingSession e cfg1 w1)"
  have flags: "\<not> ClearSession cfg1" "\<not> NoSession cfg1"
      "ForceRefresh cfg1 \<or> (t < refreshThreshold e \<and> t > 0)"
    using ensureUsername_frame[OF u] c n a by simp_all
  obtain reason where h: "handleExistingSession e cfg1 w1 =
     (None, snd (Delete e
        (emit (Print ''(Your trusted device status for MFA will be preserved)'')
          (emit (Print ''Re-authenticating with password...'')
            (emit (Print ''Token refresh failed'')
              (snd (RefreshSession e s (emit (Print reason) w2))))))))"
    using handleExistingSession_refresh_fails[OF flags(1,2) l flags(3) f] by blast
  have 1: "fst (handleExistingSession e cfg1 w1) = None" using h by simp
  have 2: "Authenticate e cfg w = Authenticate_fresh e cfg1 ?w3"
    using u h by (simp add: Authenticate_def)
  have 3: "net_calls ?w3 = net_calls w @ (if request_fails e then [] else [RefreshPath])"
    using h Load_Some[OF l] ensureUsername_frame[OF u]
    by (simp add: Delete_frame RefreshSession_frame)
  have 4: "file_ops ?w3 = file_ops w @ [FileRead, FileRemove]"
    using h Load_Some[OF l] ensureUsername_frame[OF u]
    by (simp add: Delete_frame RefreshSession_frame)
  have 5: "\<not> remove_fails e \<longrightarrow> session_file ?w3 = None"
    using h by (simp add: Delete_frame)
  have 6: "count_list (net_calls (snd (Authenticate e cfg w))) RefreshPath
           = count_list (net_calls w) RefreshPath + (if request_fails e then 0 else 1)"
    by (simp add: 2 Authenticate_fresh_no_refresh 3)
  have 7: "fst (Authenticate e cfg w) = Inr fs'
           \<and> (\<exists>ss. session_file (snd (Authenticate e cfg w)) = Some (Stored ss)
                        \<and> session ss = Some fs' \<and> username ss = Username cfg1)"
    if p: "ensurePassword cfg1 ?w3 = (None, cfg2, w4)"
      and q: "performFreshAuth e cfg2 w4 = (Inr fs, w5)"
      and r: "upgradeSessionIfNeeded e fs w5 = (None, fs', w6)"
      and wr: "\<not> write_fails e" "\<not> encode_fails e"
    for cfg2 w4 fs w5 fs' w6
  proof -
    have ns: "\<not> NoSession cfg2" "Username cfg2 = Username cfg1"
      using ensurePassword_frame[OF p] flags(2) by simp_all
    show ?thesis
      using Authenticate_fresh_success[OF p q r] saveSessionIfEnabled_file[OF ns(1) wr, of fs' w6]
      by (simp add: 2 ns(2))
  qed
  show ?thesis using 1 2 3 4 5 6 7 by blast
qed

theorem refresh_failure_falls_back_witness:
  "ensureUsername example_config (example_world\<lparr>session_file := Some (Stored expiring_saved)\<rparr>)
     = (None, example_config, example_world\<lparr>session_file := Some (Stored expiring_saved)\<rparr>)
   \<and> \<not> ClearSession example_config \<and> \<not> NoSession example_config
   \<and> fst (Load refresh_refused (Username example_config)
             (example_world\<lparr>session_file := Some (Stored expiring_saved)\<rparr>))
       = (Some example_session, 3 * 24 * Hour, None)
   \<and> 3 * 24 * Hour < refreshThreshold refresh_refused \<and> 3 * 24 * Hour > (0::int)
   \<and> fst (RefreshSession refresh_refused example_session example_world) = Inl (ErrRefreshFailed 200)
   \<and> \<not> write_fails refresh_refused \<and> \<not> remove_fails refresh_refused
   \<and> \<not> encode_fails refresh_refused \<and> \<not> request_fails refresh_refused
   \<and> fst (Authenticate refresh_refused example_config
             (example_world\<lparr>session_file := Some (Stored expiring_saved)\<rparr>)) = Inr example_session
   \<and> net_calls (snd (Authenticate refresh_refused example_config
             (example_world\<lparr>session_file := Some (Stored expiring_saved)\<rparr>)))
       = [RefreshPath, AuthInfoPath, AuthPath]
   \<and> file_ops (snd (Authenticate refresh_refused example_config
             (example_world\<lparr>session_file := Some (Stored expiring_saved)\<rparr>)))
       = [FileRead, FileRemove, FileWrite]
   \<and> session_file (snd (Authenticate refresh_refused example_config
             (example_world\<lparr>session_file := Some (Stored expiring_saved)\<rparr>)))
       = Some (Stored \<lparr>session = Some example_session, username = ''alice'',
                 saved_at = 1700000000000000001, expires_at = 1702592000000000002\<rparr>)"
proof -
  let ?w = "example_world\<lparr>session_file := Some (Stored expiring_saved)\<rparr>"
  let ?w2 = "(emit FileRead ?w)\<lparr>ticks := 1\<rparr>"
  have u: "ensureUsername example_config ?w = (None, example_config, ?w)"
    by (simp add: ensureUsername_def example_config_def)
  have f: "\<not> ClearSession example_config" "\<not> NoSession example_config"
    by (simp_all add: example_config_def)
  have l: "Load refresh_refused (Username example_config) ?w
      = ((Some example_session, 3 * 24 * Hour, None), ?w2)"
    by (simp add: store_defs example_defs constant_defs refresh_refused_def expiring_saved_def)
  have t: "ForceRefresh example_config
      \<or> (3 * 24 * Hour < refreshThreshold refresh_refused \<and> 3 * 24 * Hour > 0)"
    by (simp add: constant_defs example_env_def refresh_refused_def)
  have r: "isl (fst (RefreshSession refresh_refused example_session ?w2))"
    by (simp add: RefreshSession_def refresh_refused_def example_env_def example_session_def
        constant_defs)
  have a: "Authenticate refresh_refused example_config ?w =
     (Inr example_session,
      \<lparr>session_file = Some (Stored \<lparr>session = Some example_session, username = ''alice'',
                 saved_at = 1700000000000000001, expires_at = 1702592000000000002\<rparr>),
       stdin = [], ticks = 3,
       trace = [FileRead, Print ''Session expires soon, attempting refresh...'',
        Net RefreshPath, Print ''Token refresh failed'',
        Print ''Re-authenticating with password...'',
        Print ''(Your trusted device status for MFA will be preserved)'',
        FileRemove, Net AuthInfoPath, Net AuthPath, FileWrite]\<rparr>)"
    by (simp add: all_defs refresh_refused_def expiring_saved_def)
  have r': "fst (RefreshSession refresh_refused example_session example_world)
      = Inl (ErrRefreshFailed 200)"
    by (simp add: RefreshSession_def refresh_refused_def example_env_def example_session_def
        constant_defs)
  have wr: "\<not> write_fails refresh_refused" "\<not> remove_fails refresh_refused"
    "\<not> encode_fails refresh_refused" "\<not> request_fails refresh_refused"
    by (simp_all add: refresh_refused_def example_env_def)
  show ?thesis
    using refresh_failure_falls_back [OF u f l t r] u f l t r' wr a
    by (simp add: net_calls_def file_ops_def constant_defs refresh_refused_def example_env_def)
qed

section \<open>Success codes\<close>

text \<open>
  C5. \<open>IsSuccessCode\<close> holds of the multi-status code 1001 and \<open>RefreshSession\<close> accepts
  a reply that carries it, but \<open>getAuthInfo\<close>, \<open>sendAuthRequest\<close> and \<open>submit2FA\<close>
  compare with \<open>CodeSuccess\<close> alone: each of them turns a reply with HTTP status 200 and
  code 1001 into an error, and a fresh login against such a remote party fails at the first call.
\<close>

theorem multi_status_rejected_by_auth_calls:
  "IsSuccessCode 1001
   \<and> fst (RefreshSession multi_status_env example_session example_world)
       = Inr (example_session\<lparr>Code := 1001\<rparr>)
   \<and> fst (getAuthInfo multi_status_env example_config example_world) = Inl (ErrAuthInfoCode 1001)
   \<and> fst (sendAuthRequest multi_status_env example_request example_world) = Inl (APIError 1001)
   \<and> fst (submit2FA multi_status_env example_session ''123456'' example_world)
       = Inl (APIError 1001)
   \<and> fst (Authenticate multi_status_env example_config example_world)
       = Inl (Wrapped ''failed to get auth info'' (ErrAuthInfoCode 1001))"
  by (simp add: all_defs multi_status_env_def example_request_def)

section \<open>Second-factor code\<close>

text \<open>
  C6 (as amended). \<open>get2FACode\<close> accepts exactly the lines that, with the surrounding white
  space trimmed, are non-empty and consist of the digits 0 to 9, whatever their length; an empty
  code and a code with any other character are rejected. Reading and checking the code makes no
  remote call. After a rejection \<open>upgradeSessionIfNeeded\<close> fails without any remote call, and
  \<open>performFreshAuth\<close>, which reads the code after fetching the authentication parameters,
  fails without a further one.
\<close>

theorem second_factor_code_checked_locally:
  "fst (get2FACode w) =
     (case stdin w of
        [] \<Rightarrow> Inl ErrRead2FA
      | None # rest \<Rightarrow> Inl ErrRead2FA
      | Some line # rest \<Rightarrow>
          if TrimSpace line = [] then Inl Err2FAEmpty
          else if \<exists>c\<in>set (TrimSpace line). (of_char c :: nat) < 48 \<or> 57 < (of_char c :: nat)
               then Inl Err2FANotNumeric
          else Inr (TrimSpace line))
   \<and> net_calls (snd (get2FACode w)) = net_calls w
   \<and> (''vpn'' \<notin> set (Scopes s) \<and> ''twofactor'' \<in> set (Scopes s)
        \<and> isl (fst (get2FACode
             (emit (Print ''Session lacks VPN scope - 2FA verification required to upgrade session...'') w)))
       \<longrightarrow> fst (upgradeSessionIfNeeded e s w) \<noteq> None
           \<and> net_calls (snd (snd (upgradeSessionIfNeeded e s w))) = net_calls w)
   \<and> (\<forall>authInfo w1 proofs.
         getAuthInfo e cfg w = (Inr authInfo, w1)
         \<and> generateSRPProofs e cfg authInfo = Inr proofs
         \<and> Enabled (TwoFA authInfo) = EnabledTrue \<and> TOTP (TwoFA authInfo) = EnabledTrue
         \<and> isl (fst (get2FACode w1))
       \<longrightarrow> isl (fst (performFreshAuth e cfg w))
           \<and> net_calls (snd (performFreshAuth e cfg w)) = net_calls w @ [AuthInfoPath])"
proof -
  have 1: "fst (get2FACode w) =
     (case stdin w of
        [] \<Rightarrow> Inl ErrRead2FA
      | None # rest \<Rightarrow> Inl ErrRead2FA
      | Some line # rest \<Rightarrow>
          if TrimSpace line = [] then Inl Err2FAEmpty
          else if \<exists>c\<in>set (TrimSpace line). (of_char c :: nat) < 48 \<or> 57 < (of_char c :: nat)
               then Inl Err2FANotNumeric
          else Inr (TrimSpace line))"
    by (auto simp: get2FACode_result numeric_iff not_le not_less split: list.splits option.splits)
  have 3: "fst (upgradeSessionIfNeeded e s w) \<noteq> None
           \<and> net_calls (snd (snd (upgradeSessionIfNeeded e s w))) = net_calls w"
    if n: "''vpn'' \<notin> set (Scopes s)" "''twofactor'' \<in> set (Scopes s)"
      and i: "isl (fst (get2FACode
             (emit (Print ''Session lacks VPN scope - 2FA verification required to upgrade session...'') w)))"
  proof -
    let ?w0 = "emit (Print ''Session lacks VPN scope - 2FA verification required to upgrade session...'') w"
    obtain err w1 where g: "get2FACode ?w0 = (Inl err, w1)"
      using i by (cases "get2FACode ?w0") (auto simp: isl_def)
    have "net_calls w1 = net_calls w"
      using get2FACode_frame[OF g] by simp
    then show ?thesis
      using upgradeSessionIfNeeded_upgrade[OF n, of e w] g by simp
  qed
  have 4: "isl (fst (performFreshAuth e cfg w))
           \<and> net_calls (snd (performFreshAuth e cfg w)) = net_calls w @ [AuthInfoPath]"
    if a: "getAuthInfo e cfg w = (Inr authInfo, w1)"
      and g: "generateSRPProofs e cfg authInfo = Inr proofs"
      and t: "Enabled (TwoFA authInfo) = EnabledTrue" "TOTP (TwoFA authInfo) = EnabledTrue"
      and i: "isl (fst (get2FACode w1))"
    for authInfo w1 proofs
  proof -
    obtain err w2 where c: "get2FACode w1 = (Inl err, w2)"
      using i by (cases "get2FACode w1") (auto simp: isl_def)
    have "net_calls w2 = net_calls w @ [AuthInfoPath]"
      using get2FACode_frame[OF c] getAuthInfo_sent[OF a] by simp
    then show ?thesis
      using a g t c by (simp add: performFreshAuth_def)
  qed
  show ?thesis using 1 get2FACode_net 3 4 by blast
qed

theorem second_factor_code_checked_locally_witness:
  "stdin (example_world\<lparr>stdin := [Some ''12a456\<newline>'']\<rparr>) = [Some ''12a456\<newline>'']
   \<and> TrimSpace ''12a456\<newline>'' = ''12a456''
   \<and> fst (get2FACode (example_world\<lparr>stdin := [Some ''12a456\<newline>'']\<rparr>)) = Inl Err2FANotNumeric
   \<and> net_calls (snd (get2FACode (example_world\<lparr>stdin := [Some ''12a456\<newline>'']\<rparr>))) = []
   \<and> ''vpn'' \<notin> set (Scopes twofactor_session) \<and> ''twofactor'' \<in> set (Scopes twofactor_session)
   \<and> fst (upgradeSessionIfNeeded example_env twofactor_session
            (example_world\<lparr>stdin := [Some ''12a456\<newline>'']\<rparr>)) \<noteq> None
   \<and> net_calls (snd (snd (upgradeSessionIfNeeded example_env twofactor_session
            (example_world\<lparr>stdin := [Some ''12a456\<newline>'']\<rparr>)))) = []
   \<and> fst (getAuthInfo totp_env example_config (example_world\<lparr>stdin := [Some ''12a456\<newline>'']\<rparr>))
       = Inr totp_info
   \<and> Enabled (TwoFA totp_info) = EnabledTrue \<and> TOTP (TwoFA totp_info) = EnabledTrue
   \<and> isl (fst (performFreshAuth totp_env example_config
            (example_world\<lparr>stdin := [Some ''12a456\<newline>'']\<rparr>)))
   \<and> net_calls (snd (performFreshAuth totp_env example_config
            (example_world\<lparr>stdin := [Some ''12a456\<newline>'']\<rparr>))) = [AuthInfoPath]"
proof -
  let ?w = "example_world\<lparr>stdin := [Some ''12a456\<newline>'']\<rparr>"
  let ?pr = "\<lparr>ClientEphemeral = ''A'', ClientProof = ''M1'', ExpectedServerProof = ''server''\<rparr>"
  have i: "stdin ?w = [Some ''12a456\<newline>'']" by simp
  have t: "TrimSpace ''12a456\<newline>'' = ''12a456''" by (simp add: input_defs)
  have n: "''vpn'' \<notin> set (Scopes twofactor_session)" "''twofactor'' \<in> set (Scopes twofactor_session)"
    by (simp_all add: twofactor_session_def example_session_def)
  have r: "isl (fst (get2FACode
      (emit (Print ''Session lacks VPN scope - 2FA verification required to upgrade session...'') ?w)))"
    by (simp add: input_defs emit_def example_world_def)
  have a: "getAuthInfo totp_env example_config ?w = (Inr totp_info, emit (Net AuthInfoPath) ?w)"
    by (simp add: getAuthInfo_def totp_env_def totp_info_def example_env_def constant_defs)
  have g: "generateSRPProofs totp_env example_config totp_info = Inr ?pr"
    by (simp add: generateSRPProofs_def totp_env_def example_env_def)
  have f: "Enabled (TwoFA totp_info) = EnabledTrue" "TOTP (TwoFA totp_info) = EnabledTrue"
    by (simp_all add: totp_info_def EnabledTrue_def)
  have r': "isl (fst (get2FACode (emit (Net AuthInfoPath) ?w)))"
    by (simp add: input_defs emit_def example_world_def)
  note T = second_factor_code_checked_locally [of ?w twofactor_session example_env]
  note T' = second_factor_code_checked_locally [of ?w twofactor_session totp_env example_config]
  have 1: "fst (get2FACode ?w) = Inl Err2FANotNumeric"
    using T i t by simp
  have 2: "net_calls (snd (get2FACode ?w)) = []"
    using T by simp
  have 3: "fst (upgradeSessionIfNeeded example_env twofactor_session ?w) \<noteq> None
      \<and> net_calls (snd (snd (upgradeSessionIfNeeded example_env twofactor_session ?w))) = []"
    using T n r by simp
  have 4: "isl (fst (performFreshAuth totp_env example_config ?w))
      \<and> net_calls (snd (performFreshAuth totp_env example_config ?w)) = [AuthInfoPath]"
    using T' a g f r' by simp
  show ?thesis using i t 1 2 n 3 a f 4 by simp
qed

text \<open>
  C6 as stated fails on the length: codes of five and of seven digits are both accepted, and the
  five-digit one is submitted to the second-factor endpoint.
\<close>

theorem second_factor_code_of_any_length:
  "fst (get2FACode (example_world\<lparr>stdin := [Some ''12345\<newline>'']\<rparr>)) = Inr ''12345''
   \<and> fst (get2FACode (example_world\<lparr>stdin := [Some ''1234567\<newline>'']\<rparr>)) = Inr ''1234567''
   \<and> length ''12345'' \<noteq> length ''1234567''
   \<and> net_calls (snd (Authenticate twofactor_env example_config
         (example_world\<lparr>stdin := [Some ''12345\<newline>'']\<rparr>)))
      = [AuthInfoPath, AuthPath, TwoFAPath]"
  by (simp add: all_defs twofactor_env_def twofactor_session_def net_calls_def)

section \<open>Reuse of a saved session\<close>

text \<open>
  C7. When a saved session is loaded, no refresh is forced, the time until expiry is not below
  the renewal threshold and \<open>VerifySession\<close> answers true, \<open>Authenticate\<close> returns that session:
  the only remote call of the run is the verification, the only file operation is the read, and
  the session file is what it was.
\<close>

theorem reuse_leaves_session_untouched:
  assumes "ensureUsername cfg w = (None, cfg1, w1)"
    and "\<not> ClearSession cfg" and "\<not> NoSession cfg" and "\<not> ForceRefresh cfg"
    and "Load e (Username cfg1) w1 = ((Some s, t, None), w2)"
    and "\<not> (t < refreshThreshold e \<and> t > 0)"
    and "fst (VerifySession e s w2)"
  shows "fst (Authenticate e cfg w) = Inr s
       \<and> session_file (snd (Authenticate e cfg w)) = session_file w
       \<and> net_calls (snd (Authenticate e cfg w)) = net_calls w @ [LogicalsPath]
       \<and> file_ops (snd (Authenticate e cfg w)) = file_ops w @ [FileRead]"
proof -
  obtain w3 where v: "VerifySession e s w2 = (True, w3)"
    using assms(7) by (cases "VerifySession e s w2") auto
  have flags: "\<not> ClearSession cfg1" "\<not> NoSession cfg1" "\<not> ForceRefresh cfg1"
    using ensureUsername_frame[OF assms(1)] assms(2-4) by simp_all
  have t: "tryExistingSession e cfg1 w1 = ((Some s, None), emit (Print ''Using saved session'') w3)"
    using assms(5,6) v flags by (auto simp: tryExistingSession_def)
  have a: "Authenticate e cfg w = (Inr s, emit (Print ''Using saved session'') w3)"
    using assms(1) flags t by (simp add: Authenticate_def handleExistingSession_def)
  have w3: "w3 = snd (VerifySession e s w2)" using v by simp
  show ?thesis
    using a Load_Some[OF assms(5)] ensureUsername_frame[OF assms(1)]
    by (simp add: w3 VerifySession_frame(1,3,4) VerifySession_frame(2)[OF assms(7)])
qed

theorem reuse_leaves_session_untouched_witness:
  "ensureUsername example_config (example_world\<lparr>session_file := Some (Stored example_saved)\<rparr>)
     = (None, example_config, example_world\<lparr>session_file := Some (Stored example_saved)\<rparr>)
   \<and> \<not> ClearSession example_config \<and> \<not> NoSession example_config \<and> \<not> ForceRefresh example_config
   \<and> fst (Load example_env (Username example_config)
             (example_world\<lparr>session_file := Some (Stored example_saved)\<rparr>))
       = (Some example_session, 20 * 24 * Hour, None)
   \<and> \<not> (20 * 24 * Hour < refreshThreshold example_env \<and> 20 * 24 * Hour > 0)
   \<and> fst (Authenticate example_env example_config
             (example_world\<lparr>session_file := Some (Stored example_saved)\<rparr>)) = Inr example_session
   \<and> session_file (snd (Authenticate example_env example_config
             (example_world\<lparr>session_file := Some (Stored example_saved)\<rparr>)))
       = Some (Stored example_saved)
   \<and> net_calls (snd (Authenticate example_env example_config
             (example_world\<lparr>session_file := Some (Stored example_saved)\<rparr>))) = [LogicalsPath]
   \<and> file_ops (snd (Authenticate example_env example_config
             (example_world\<lparr>session_file := Some (Stored example_saved)\<rparr>))) = [FileRead]"
proof -
  let ?w = "example_world\<lparr>session_file := Some (Stored example_saved)\<rparr>"
  have u: "ensureUsername example_config ?w = (None, example_config, ?w)"
    by (simp add: ensureUsername_def example_config_def)
  have f: "\<not> ClearSession example_config" "\<not> NoSession example_config"
      "\<not> ForceRefresh example_config"
    by (simp_all add: example_config_def)
  have l: "Load example_env (Username example_config) ?w
      = ((Some example_session, 20 * 24 * Hour, None), (emit FileRead ?w)\<lparr>ticks := 1\<rparr>)"
    by (simp add: store_defs example_defs constant_defs)
  have t: "\<not> (20 * 24 * Hour < refreshThreshold example_env \<and> 20 * 24 * Hour > 0)"
    by (simp add: constant_defs example_env_def)
  have v: "fst (VerifySession example_env example_session ((emit FileRead ?w)\<lparr>ticks := 1\<rparr>))"
    by (simp add: VerifySession_def example_env_def constant_defs)
  show ?thesis
    using reuse_leaves_session_untouched [OF u f l t v] u f l t
    by (simp add: net_calls_def file_ops_def example_world_def)
qed

section \<open>A session file that does not parse\<close>

text \<open>
  C8. When the session file holds bytes that do not parse, \<open>Load\<close> returns no session
  (a nil pointer, together with the parsing error), \<open>tryExistingSession\<close> prints a warning,
  \<open>handleExistingSession\<close> yields no session, and \<open>Authenticate\<close> is the fresh login from
  there: the run goes on as it does without a usable session.
\<close>

theorem parse_failure_is_not_fatal:
  assumes u: "ensureUsername cfg w = (None, cfg1, w1)"
    and c: "\<not> ClearSession cfg" and n: "\<not> NoSession cfg"
    and m: "session_file w = Some (Malformed bytes)" and r: "\<not> read_fails e"
  shows "Load e (Username cfg1) w1 = ((None, 0, Some ErrUnmarshalSession), emit FileRead w1)
       \<and> tryExistingSession e cfg1 w1 =
           ((None, Some ErrUnmarshalSession),
            emit (Print ''Warning: Failed to load saved session'') (emit FileRead w1))
       \<and> handleExistingSession e cfg1 w1 =
           (None, emit (Print ''Warning: Failed to load saved session'') (emit FileRead w1))
       \<and> Authenticate e cfg w =
           Authenticate_fresh e cfg1
             (emit (Print ''Warning: Failed to load saved session'') (emit FileRead w1))"
proof -
  have flags: "\<not> ClearSession cfg1" "\<not> NoSession cfg1" "session_file w1 = Some (Malformed bytes)"
    using ensureUsername_frame[OF u] c n m by simp_all
  have l: "Load e (Username cfg1) w1 = ((None, 0, Some ErrUnmarshalSession), emit FileRead w1)"
    using Load_malformed[OF flags(3) r] .
  have t: "tryExistingSession e cfg1 w1 =
           ((None, Some ErrUnmarshalSession),
            emit (Print ''Warning: Failed to load saved session'') (emit FileRead w1))"
    by (simp add: tryExistingSession_def l)
  have h: "handleExistingSession e cfg1 w1 =
           (None, emit (Print ''Warning: Failed to load saved session'') (emit FileRead w1))"
    using flags(1,2) by (simp add: handleExistingSession_def t)
  have a: "Authenticate e cfg w =
           Authenticate_fresh e cfg1
             (emit (Print ''Warning: Failed to load saved session'') (emit FileRead w1))"
    using u by (simp add: Authenticate_def h)
  show ?thesis using l t h a by blast
qed

theorem parse_failure_is_not_fatal_witness:
  "ensureUsername example_config (example_world\<lparr>session_file := Some (Malformed ''{'')\<rparr>)
     = (None, example_config, example_world\<lparr>session_file := Some (Malformed ''{'')\<rparr>)
   \<and> \<not> ClearSession example_config \<and> \<not> NoSession example_config
   \<and> session_file (example_world\<lparr>session_file := Some (Malformed ''{'')\<rparr>) = Some (Malformed ''{'')
   \<and> \<not> read_fails example_env
   \<and> fst (Load example_env ''alice'' (example_world\<lparr>session_file := Some (Malformed ''{'')\<rparr>))
       = (None, 0, Some ErrUnmarshalSession)
   \<and> Authenticate example_env example_config (example_world\<lparr>session_file := Some (Malformed ''{'')\<rparr>)
       = (Inr example_session,
          \<lparr>session_file = Some (Stored \<lparr>session = Some example_session, username = ''alice'',
               saved_at = 1700000000000000000, expires_at = 1702592000000000001\<rparr>),
           stdin = [], ticks = 2,
           trace = [FileRead, Print ''Warning: Failed to load saved session'',
                    Net AuthInfoPath, Net AuthPath, FileWrite]\<rparr>)"
proof -
  let ?w = "example_world\<lparr>session_file := Some (Malformed ''{'')\<rparr>"
  have u: "ensureUsername example_config ?w = (None, example_config, ?w)"
    by (simp add: ensureUsername_def example_config_def)
  have f: "\<not> ClearSession example_config" "\<not> NoSession example_config"
    by (simp_all add: example_config_def)
  have m: "session_file ?w = Some (Malformed ''{'')" by simp
  have r: "\<not> read_fails example_env" by (simp add: example_env_def)
  have fr: "Authenticate_fresh example_env example_config
             (emit (Print ''Warning: Failed to load saved session'') (emit FileRead ?w))
       = (Inr example_session,
          \<lparr>session_file = Some (Stored \<lparr>session = Some example_session, username = ''alice'',
               saved_at = 1700000000000000000, expires_at = 1702592000000000001\<rparr>),
           stdin = [], ticks = 2,
           trace = [FileRead, Print ''Warning: Failed to load saved session'',
                    Net AuthInfoPath, Net AuthPath, FileWrite]\<rparr>)"
    by (simp add: all_defs)
  show ?thesis
    using parse_failure_is_not_fatal [OF u f m r] u f m r fr
    by (simp add: example_config_def)
qed

section \<open>Empty password\<close>

text \<open>
  C9. With no password passed in and an empty line entered at the masked prompt,
  \<open>ensurePassword\<close> stores the empty password and reports no error; \<open>Authenticate\<close> goes on
  to fetch the authentication parameters, runs the SRP engine on the empty password (here an
  engine that fails on every other password) and submits the proofs. An empty user name and an
  empty second-factor code, by contrast, are rejected by their prompts.
\<close>

theorem empty_password_reaches_srp:
  "ensurePassword (example_config\<lparr>Password := []\<rparr>) (example_world\<lparr>stdin := [Some []]\<rparr>)
     = (None, example_config\<lparr>Password := []\<rparr>,
        \<lparr>session_file = None, stdin = [], ticks = 0,
         trace = [Print ''Password: '', ReadStdin, Print []]\<rparr>)
   \<and> generateSRPProofs empty_secret_env example_config
        \<lparr>InfoCode = 1000, Version = 4, Salt = ''salt'', Modulus = ''modulus'',
         ServerEphemeral = ''ephemeral'', SRPSession = ''srp'', TwoFA = \<lparr>Enabled = 0, TOTP = 0\<rparr>\<rparr>
       = Inl ErrSRPCreate
   \<and> Authenticate empty_secret_env (example_config\<lparr>Password := []\<rparr>)
        (example_world\<lparr>stdin := [Some []]\<rparr>)
     = (Inr example_session,
        \<lparr>session_file = Some (Stored \<lparr>session = Some example_session, username = ''alice'',
              saved_at = 1700000000000000000, expires_at = 1702592000000000001\<rparr>),
         stdin = [], ticks = 2,
         trace = [FileRead, Print ''Password: '', ReadStdin, Print [], Net AuthInfoPath,
                  Net AuthPath, FileWrite]\<rparr>)
   \<and> fst (ensureUsername (example_config\<lparr>Username := []\<rparr>) (example_world\<lparr>stdin := [Some ''\<newline>'']\<rparr>))
       = Some ErrUsernameEmpty
   \<and> fst (get2FACode (example_world\<lparr>stdin := [Some ''\<newline>'']\<rparr>)) = Inl Err2FAEmpty"
  by (simp add: all_defs empty_secret_env_def)

section \<open>What loading may delete\<close>

text \<open>
  C10 (as amended). \<open>Load\<close> changes the session file only by removing it, and only when
  the stored session belongs to the requested identity and has expired. When the stored identity
  differs from the requested one, \<open>Load\<close> returns no session and does nothing but read the
  file.
\<close>

theorem Load_deletes_only_own_expired:
  "(session_file (snd (Load e u w)) \<noteq> session_file w \<longrightarrow>
      (\<exists>ss. session_file w = Some (Stored ss) \<and> username ss = u
            \<and> expires_at ss < clock e (ticks w)
            \<and> fst (Load e u w) = (None, 0, None)
            \<and> session_file (snd (Load e u w)) = None))
   \<and> (\<forall>ss. session_file w = Some (Stored ss) \<and> username ss \<noteq> u \<longrightarrow>
          fst (fst (Load e u w)) = None \<and> snd (Load e u w) = emit FileRead w)"
proof -
  have 1: "session_file (snd (Load e u w)) \<noteq> session_file w \<longrightarrow>
      (\<exists>ss. session_file w = Some (Stored ss) \<and> username ss = u
            \<and> expires_at ss < clock e (ticks w)
            \<and> fst (Load e u w) = (None, 0, None)
            \<and> session_file (snd (Load e u w)) = None)"
    using Load_changes_file[of e u w] by blast
  have 2: "\<forall>ss. session_file w = Some (Stored ss) \<and> username ss \<noteq> u \<longrightarrow>
          fst (fst (Load e u w)) = None \<and> snd (Load e u w) = emit FileRead w"
    by (simp add: Load_def Let_def)
  show ?thesis using 1 2 by blast
qed

theorem Load_deletes_only_own_expired_witness:
  "session_file (example_world\<lparr>session_file := Some (Stored example_saved)\<rparr>)
      = Some (Stored example_saved)
   \<and> username example_saved \<noteq> ''bob''
   \<and> fst (fst (Load example_env ''bob''
         (example_world\<lparr>session_file := Some (Stored example_saved)\<rparr>))) = None
   \<and> snd (Load example_env ''bob'' (example_world\<lparr>session_file := Some (Stored example_saved)\<rparr>))
      = emit FileRead (example_world\<lparr>session_file := Some (Stored example_saved)\<rparr>)
   \<and> session_file (snd (Load (example_env\<lparr>clock := (\<lambda>n. 1800000000000000000)\<rparr>) ''alice''
          (example_world\<lparr>session_file := Some (Stored example_saved)\<rparr>)))
      \<noteq> session_file (example_world\<lparr>session_file := Some (Stored example_saved)\<rparr>)
   \<and> session_file (snd (Load (example_env\<lparr>clock := (\<lambda>n. 1800000000000000000)\<rparr>) ''alice''
          (example_world\<lparr>session_file := Some (Stored example_saved)\<rparr>))) = None"
proof -
  let ?w = "example_world\<lparr>session_file := Some (Stored example_saved)\<rparr>"
  let ?late = "example_env\<lparr>clock := (\<lambda>n. 1800000000000000000)\<rparr>"
  have a: "session_file ?w = Some (Stored example_saved)" by simp
  have b: "username example_saved \<noteq> ''bob''" by (simp add: example_saved_def)
  have c: "session_file (snd (Load ?late ''alice'' ?w)) \<noteq> session_file ?w"
    by (simp add: store_defs example_defs constant_defs)
  have d1: "fst (fst (Load example_env ''bob'' ?w)) = None
      \<and> snd (Load example_env ''bob'' ?w) = emit FileRead ?w"
    using Load_deletes_only_own_expired [of example_env "''bob''" ?w] a b by blast
  have d2: "session_file (snd (Load ?late ''alice'' ?w)) = None"
    using Load_deletes_only_own_expired [of ?late "''alice''" ?w] c by blast
  show ?thesis using a b c d1 d2 by blast
qed

text \<open>
  C10 as stated fails for the run: with alice's session stored, a run for bob loads nothing,
  logs in afresh and saves, and the single session file then holds bob's session.
\<close>

theorem run_under_other_account_replaces_file:
  "session_file (example_world\<lparr>session_file := Some (Stored example_saved)\<rparr>)
      = Some (Stored example_saved)
   \<and> username example_saved = ''alice'' \<and> Username bob_config = ''bob''
   \<and> fst (Load example_env ''bob'' (example_world\<lparr>session_file := Some (Stored example_saved)\<rparr>))
      = (None, 0, None)
   \<and> session_file (snd (Authenticate example_env bob_config
         (example_world\<lparr>session_file := Some (Stored example_saved)\<rparr>)))
      = Some (Stored \<lparr>session = Some example_session, username = ''bob'',
           saved_at = 1700000000000000000, expires_at = 1702592000000000001\<rparr>)
   \<and> session_file (snd (Authenticate example_env bob_config
         (example_world\<lparr>session_file := Some (Stored example_saved)\<rparr>)))
      \<noteq> Some (Stored example_saved)"
  by (simp add: all_defs bob_config_def)

end
